theory Spec2Isabelle
  imports Complex_Main "HOL-Library.Sublist"
begin

section \<open>The trading terminal as seen by the routes\<close>

text \<open>
  The routes of \<^verbatim>\<open>routes/position.py\<close> talk to the terminal through the
  \<^verbatim>\<open>MetaTrader5\<close> package. The package is not part of the repository; the
  constants below are the values the package exports, and the structures keep
  the attributes the routes read.
\<close>

definition ORDER_TYPE_BUY :: int where "ORDER_TYPE_BUY = 0"
definition ORDER_TYPE_SELL :: int where "ORDER_TYPE_SELL = 1"
definition POSITION_TYPE_BUY :: int where "POSITION_TYPE_BUY = 0"
definition POSITION_TYPE_SELL :: int where "POSITION_TYPE_SELL = 1"
definition TRADE_ACTION_DEAL :: int where "TRADE_ACTION_DEAL = 1"
definition ORDER_TIME_GTC :: int where "ORDER_TIME_GTC = 0"
definition ORDER_FILLING_FOK :: int where "ORDER_FILLING_FOK = 0"
definition ORDER_FILLING_IOC :: int where "ORDER_FILLING_IOC = 1"
definition TRADE_RETCODE_DONE :: int where "TRADE_RETCODE_DONE = 10009"

text \<open>\<^verbatim>\<open>TradePosition\<close>: the attributes \<^verbatim>\<open>ticket\<close>, \<^verbatim>\<open>symbol\<close>,
  \<^verbatim>\<open>type\<close>, \<^verbatim>\<open>volume\<close> and \<^verbatim>\<open>magic\<close>. Prices and volumes are only
  copied, never computed with, so they are plain numbers here.\<close>

record position =
  pos_ticket :: int
  pos_symbol :: string
  pos_type :: int
  pos_volume :: real
  pos_magic :: int

text \<open>\<^verbatim>\<open>Tick\<close>: the quote of a symbol.\<close>

record tick =
  bid :: real
  ask :: real

text \<open>The request dictionary handed to \<^verbatim>\<open>order_send\<close>, one field per key.\<close>

record order_request =
  req_action :: int
  req_symbol :: string
  req_volume :: real
  req_type :: int
  req_position :: int
  req_price :: real
  req_deviation :: int
  req_magic :: int
  req_comment :: string
  req_type_time :: int
  req_type_filling :: int

text \<open>\<^verbatim>\<open>OrderSendResult\<close>: the routes read \<^verbatim>\<open>retcode\<close> and \<^verbatim>\<open>comment\<close> and
  pass the whole structure on (\<^verbatim>\<open>_asdict()\<close>).\<close>

record order_result =
  res_retcode :: int
  res_comment :: string
  res_volume :: real
  res_price :: real

text \<open>
  The terminal is an external state machine of some state type \<open>'g\<close>. Every
  call returns its reply together with the terminal's next state; a reply of
  \<open>None\<close> is Python's \<^verbatim>\<open>None\<close>. \<^verbatim>\<open>positions_get\<close> takes the optional
  keyword \<^verbatim>\<open>ticket=\<close>. \<^verbatim>\<open>last_error\<close> gives the text that the f-string
  formats.
\<close>

record 'g gateway =
  gw_initialize :: "'g \<Rightarrow> bool \<times> 'g"
  gw_shutdown :: "'g \<Rightarrow> 'g"
  gw_last_error :: "'g \<Rightarrow> string"
  gw_positions_get :: "int option \<Rightarrow> 'g \<Rightarrow> position list option \<times> 'g"
  gw_symbol_info_tick :: "string \<Rightarrow> 'g \<Rightarrow> tick option \<times> 'g"
  gw_order_send :: "order_request \<Rightarrow> 'g \<Rightarrow> order_result option \<times> 'g"

text \<open>The calls made to the terminal are recorded in the order they are made.\<close>

datatype call =
  Initialize
  | Shutdown
  | LastError
  | PositionsGet "int option"
  | SymbolInfoTick string
  | OrderSend order_request

record 'g world =
  gstate :: 'g
  calls :: "call list"

definition mt5_initialize :: "'g gateway \<Rightarrow> 'g world \<Rightarrow> bool \<times> 'g world" where
  "mt5_initialize gw w =
     (case gw_initialize gw (gstate w) of
        (ok, g) \<Rightarrow> (ok, \<lparr>gstate = g, calls = calls w @ [Initialize]\<rparr>))"

definition mt5_shutdown :: "'g gateway \<Rightarrow> 'g world \<Rightarrow> 'g world" where
  "mt5_shutdown gw w = \<lparr>gstate = gw_shutdown gw (gstate w), calls = calls w @ [Shutdown]\<rparr>"

definition mt5_last_error :: "'g gateway \<Rightarrow> 'g world \<Rightarrow> string \<times> 'g world" where
  "mt5_last_error gw w = (gw_last_error gw (gstate w), w\<lparr>calls := calls w @ [LastError]\<rparr>)"

definition mt5_positions_get ::
  "'g gateway \<Rightarrow> int option \<Rightarrow> 'g world \<Rightarrow> position list option \<times> 'g world" where
  "mt5_positions_get gw ticket w =
     (case gw_positions_get gw ticket (gstate w) of
        (r, g) \<Rightarrow> (r, \<lparr>gstate = g, calls = calls w @ [PositionsGet ticket]\<rparr>))"

definition mt5_symbol_info_tick ::
  "'g gateway \<Rightarrow> string \<Rightarrow> 'g world \<Rightarrow> tick option \<times> 'g world" where
  "mt5_symbol_info_tick gw name w =
     (case gw_symbol_info_tick gw name (gstate w) of
        (r, g) \<Rightarrow> (r, \<lparr>gstate = g, calls = calls w @ [SymbolInfoTick name]\<rparr>))"

definition mt5_order_send ::
  "'g gateway \<Rightarrow> order_request \<Rightarrow> 'g world \<Rightarrow> order_result option \<times> 'g world" where
  "mt5_order_send gw req w =
     (case gw_order_send gw req (gstate w) of
        (r, g) \<Rightarrow> (r, \<lparr>gstate = g, calls = calls w @ [OrderSend req]\<rparr>))"

section \<open>Responses\<close>

text \<open>An item of \<^verbatim>\<open>successful_closes\<close>: the keys \<^verbatim>\<open>ticket\<close> and \<^verbatim>\<open>result\<close>.\<close>

record successful_close =
  sc_ticket :: int
  sc_result :: order_result

text \<open>An item of \<^verbatim>\<open>failed_closes\<close>: \<^verbatim>\<open>ticket\<close>, \<^verbatim>\<open>error\<close> and, on the order
  path only, the key \<^verbatim>\<open>result\<close> (outer \<open>None\<close>: no such key; \<open>Some None\<close>: the
  key holds \<^verbatim>\<open>None\<close>).\<close>

record failed_close =
  fc_ticket :: int
  fc_error :: string
  fc_result :: "order_result option option"

text \<open>The dictionary returned by the worker of \<^verbatim>\<open>close_all_positions\<close>:
  \<^verbatim>\<open>status\<close>, \<^verbatim>\<open>ticket\<close>, and on failure \<^verbatim>\<open>error\<close> (a return code or the
  text of an exception) and, for a rejected order, \<^verbatim>\<open>symbol\<close>.\<close>

datatype error_value = Retcode int | Message string

record outcome =
  status :: string
  ticket :: int
  symbol :: "string option"
  error :: "error_value option"

datatype body =
  ErrorBody string
  | AllReport "int list" "outcome list"
  | BatchReport string "successful_close list" "failed_close list"

type_synonym response = "body \<times> nat"

section \<open>\<^verbatim>\<open>close_positions_batch_endpoint\<close>\<close>

text \<open>What \<^verbatim>\<open>request.get_json()\<close> holds, as far as the endpoint looks at it:
  nothing (or an empty object), an object without \<^verbatim>\<open>tickets\<close>, \<^verbatim>\<open>tickets\<close> that
  is not a list, or the list of tickets.\<close>

datatype batch_json = NoData | NoTickets | TicketsNotList | TicketList "int list"

definition batch_order_type :: "position \<Rightarrow> int" where
  "batch_order_type position_info =
     (if pos_type position_info = ORDER_TYPE_BUY then ORDER_TYPE_SELL else ORDER_TYPE_BUY)"

definition batch_price :: "int \<Rightarrow> tick \<Rightarrow> real" where
  "batch_price order_type tk = (if order_type = ORDER_TYPE_SELL then bid tk else ask tk)"

definition batch_close_request :: "position \<Rightarrow> int \<Rightarrow> real \<Rightarrow> order_request" where
  "batch_close_request position_info order_type price =
     \<lparr>req_action = TRADE_ACTION_DEAL,
      req_symbol = pos_symbol position_info,
      req_volume = pos_volume position_info,
      req_type = order_type,
      req_position = pos_ticket position_info,
      req_price = price,
      req_deviation = 20,
      req_magic = 0,
      req_comment = ''Batch Close'',
      req_type_time = ORDER_TIME_GTC,
      req_type_filling = ORDER_FILLING_FOK\<rparr>"

text \<open>The body of the \<^verbatim>\<open>for\<close> loop: one ticket, the two lists and the
  terminal before, the two lists and the terminal after. \<^verbatim>\<open>not
  position_info_tuple\<close> holds for \<^verbatim>\<open>None\<close> and for the empty tuple.\<close>

definition close_ticket ::
  "'g gateway \<Rightarrow> int \<Rightarrow> successful_close list \<times> failed_close list \<times> 'g world
     \<Rightarrow> successful_close list \<times> failed_close list \<times> 'g world" where
  "close_ticket gw t st =
     (case st of (successful_closes, failed_closes, w) \<Rightarrow>
      (case mt5_positions_get gw (Some t) w of (position_info_tuple, w1) \<Rightarrow>
       (case position_info_tuple of
          None \<Rightarrow>
            (successful_closes,
             failed_closes @ [\<lparr>fc_ticket = t, fc_error = ''Position not found.'', fc_result = None\<rparr>],
             w1)
        | Some [] \<Rightarrow>
            (successful_closes,
             failed_closes @ [\<lparr>fc_ticket = t, fc_error = ''Position not found.'', fc_result = None\<rparr>],
             w1)
        | Some (position_info # _) \<Rightarrow>
            (let order_type = batch_order_type position_info in
             (case mt5_symbol_info_tick gw (pos_symbol position_info) w1 of (tk, w2) \<Rightarrow>
              (case tk of
                 None \<Rightarrow>
                   (successful_closes,
                    failed_closes @
                      [\<lparr>fc_ticket = t,
                        fc_error = ''Failed to get price for symbol '' @ pos_symbol position_info,
                        fc_result = None\<rparr>],
                    w2)
               | Some tk' \<Rightarrow>
                   (let price = batch_price order_type tk';
                        close_request = batch_close_request position_info order_type price in
                    (case mt5_order_send gw close_request w2 of (result, w3) \<Rightarrow>
                     (case result of
                        Some r \<Rightarrow>
                          (if res_retcode r = TRADE_RETCODE_DONE
                           then (successful_closes @ [\<lparr>sc_ticket = t, sc_result = r\<rparr>],
                                 failed_closes, w3)
                           else (successful_closes,
                                 failed_closes @
                                   [\<lparr>fc_ticket = t, fc_error = res_comment r,
                                     fc_result = Some (Some r)\<rparr>],
                                 w3))
                      | None \<Rightarrow>
                          (successful_closes,
                           failed_closes @
                             [\<lparr>fc_ticket = t, fc_error = ''order_send returned None'',
                               fc_result = Some None\<rparr>],
                           w3))))))))))"

fun batch_loop ::
  "'g gateway \<Rightarrow> int list \<Rightarrow> successful_close list \<times> failed_close list \<times> 'g world
     \<Rightarrow> successful_close list \<times> failed_close list \<times> 'g world" where
  "batch_loop gw [] st = st"
| "batch_loop gw (t # ts) st = batch_loop gw ts (close_ticket gw t st)"

definition close_positions_batch_endpoint ::
  "'g gateway \<Rightarrow> batch_json \<Rightarrow> 'g world \<Rightarrow> response \<times> 'g world" where
  "close_positions_batch_endpoint gw data w =
     (case data of
        TicketList tickets_to_close \<Rightarrow>
          (case batch_loop gw tickets_to_close ([], [], w) of
             (successful_closes, failed_closes, w') \<Rightarrow>
               ((BatchReport ''Batch close operation completed.'' successful_closes failed_closes,
                 200), w'))
      | _ \<Rightarrow> ((ErrorBody ''A JSON array of 'tickets' is required.'', 400), w))"

section \<open>\<^verbatim>\<open>close_all_positions_endpoint\<close>\<close>

text \<open>The exceptions that can be raised inside the endpoint, with their
  message (\<^verbatim>\<open>str(e)\<close>): reading an attribute of \<^verbatim>\<open>None\<close>, and a thread pool
  asked for no workers.\<close>

datatype py_exception = AttributeError string | ValueError string

fun str_exception :: "py_exception \<Rightarrow> string" where
  "str_exception (AttributeError m) = m"
| "str_exception (ValueError m) = m"

definition none_has_no_attribute :: "string \<Rightarrow> py_exception" where
  "none_has_no_attribute a =
     AttributeError
       ([CHR 0x27] @ ''NoneType'' @ [CHR 0x27] @ '' object has no attribute '' @
        [CHR 0x27] @ a @ [CHR 0x27])"

definition all_order_type :: "position \<Rightarrow> int" where
  "all_order_type pos =
     (if pos_type pos = POSITION_TYPE_BUY then ORDER_TYPE_SELL else ORDER_TYPE_BUY)"

definition all_order_request :: "position \<Rightarrow> int \<Rightarrow> real \<Rightarrow> order_request" where
  "all_order_request pos order_type price =
     \<lparr>req_action = TRADE_ACTION_DEAL,
      req_symbol = pos_symbol pos,
      req_volume = pos_volume pos,
      req_type = order_type,
      req_position = pos_ticket pos,
      req_price = price,
      req_deviation = 10,
      req_magic = pos_magic pos,
      req_comment = ''Closed by API'',
      req_type_time = ORDER_TIME_GTC,
      req_type_filling = ORDER_FILLING_IOC\<rparr>"

text \<open>The \<^verbatim>\<open>except Exception as e\<close> branch of the worker.\<close>

definition failed_exception :: "position \<Rightarrow> py_exception \<Rightarrow> outcome" where
  "failed_exception pos e =
     \<lparr>status = ''failed'', ticket = pos_ticket pos, symbol = None,
      error = Some (Message (str_exception e))\<rparr>"

text \<open>
  The worker \<^verbatim>\<open>close_position(pos)\<close> calls the terminal twice. Other workers
  may run between the two calls, so the worker is written in two halves.
  The first half is everything up to \<^verbatim>\<open>order_request\<close>: one quote is fetched
  (the conditional expression evaluates one of its two branches), and reading
  \<^verbatim>\<open>.bid\<close> or \<^verbatim>\<open>.ask\<close> of \<^verbatim>\<open>None\<close> raises into the \<^verbatim>\<open>except\<close> branch.
\<close>

definition worker_tick ::
  "'g gateway \<Rightarrow> position \<Rightarrow> 'g world \<Rightarrow> (outcome + order_request) \<times> 'g world" where
  "worker_tick gw pos w =
     (let order_type = all_order_type pos in
      (case mt5_symbol_info_tick gw (pos_symbol pos) w of (tk, w1) \<Rightarrow>
       (case tk of
          None \<Rightarrow>
            (Inl (failed_exception pos
                    (none_has_no_attribute
                       (if order_type = ORDER_TYPE_SELL then ''bid'' else ''ask''))),
             w1)
        | Some tk' \<Rightarrow>
            (let price = (if order_type = ORDER_TYPE_SELL then bid tk' else ask tk')
             in (Inr (all_order_request pos order_type price), w1)))))"

text \<open>The second half: \<^verbatim>\<open>order_send\<close> and the test of \<^verbatim>\<open>result.retcode\<close>, which
  raises when the result is \<^verbatim>\<open>None\<close>.\<close>

definition send_outcome :: "position \<Rightarrow> order_result option \<Rightarrow> outcome" where
  "send_outcome pos result =
     (case result of
        None \<Rightarrow> failed_exception pos (none_has_no_attribute ''retcode'')
      | Some r \<Rightarrow>
          (if res_retcode r = TRADE_RETCODE_DONE
           then \<lparr>status = ''closed'', ticket = pos_ticket pos, symbol = None, error = None\<rparr>
           else \<lparr>status = ''failed'', ticket = pos_ticket pos, symbol = Some (pos_symbol pos),
                 error = Some (Retcode (res_retcode r))\<rparr>))"

definition worker_send ::
  "'g gateway \<Rightarrow> position \<Rightarrow> order_request \<Rightarrow> 'g world \<Rightarrow> outcome \<times> 'g world" where
  "worker_send gw pos order_request w =
     (case mt5_order_send gw order_request w of (result, w1) \<Rightarrow> (send_outcome pos result, w1))"

text \<open>A submitted call is waiting for its quote, waiting to send its order,
  or finished with its return value.\<close>

datatype task =
  Submitted position
  | AwaitingSend position order_request
  | Finished outcome

fun worker_step :: "'g gateway \<Rightarrow> task \<Rightarrow> 'g world \<Rightarrow> task \<times> 'g world" where
  "worker_step gw (Submitted pos) w =
     (case worker_tick gw pos w of
        (Inl r, w1) \<Rightarrow> (Finished r, w1)
      | (Inr order_request, w1) \<Rightarrow> (AwaitingSend pos order_request, w1))"
| "worker_step gw (AwaitingSend pos order_request) w =
     (case worker_send gw pos order_request w of (r, w1) \<Rightarrow> (Finished r, w1))"
| "worker_step gw (Finished r) w = (Finished r, w)"

text \<open>\<^verbatim>\<open>future.result()\<close> waits until the worker has returned: whatever is
  left of the worker runs before the result is handed over.\<close>

fun future_result :: "'g gateway \<Rightarrow> task \<Rightarrow> 'g world \<Rightarrow> outcome \<times> 'g world" where
  "future_result gw (Finished r) w = (r, w)"
| "future_result gw (AwaitingSend pos order_request) w = worker_send gw pos order_request w"
| "future_result gw (Submitted pos) w =
     (case worker_tick gw pos w of
        (Inl r, w1) \<Rightarrow> (r, w1)
      | (Inr order_request, w1) \<Rightarrow> worker_send gw pos order_request w1)"

text \<open>The worker run from start to end without interruption.\<close>

definition close_position :: "'g gateway \<Rightarrow> position \<Rightarrow> 'g world \<Rightarrow> outcome \<times> 'g world" where
  "close_position gw pos w = future_result gw (Submitted pos) w"

text \<open>
  The threads of the pool interleave at the calls to the terminal. A schedule
  names, step by step, the worker that makes its next call; a step for a
  finished worker, or for an index outside the pool, changes nothing.
\<close>

fun run_schedule :: "'g gateway \<Rightarrow> nat list \<Rightarrow> task list \<times> 'g world \<Rightarrow> task list \<times> 'g world" where
  "run_schedule gw [] st = st"
| "run_schedule gw (i # sched) (tasks, w) =
     (if i < length tasks
      then (case worker_step gw (tasks ! i) w of
              (t, w1) \<Rightarrow> run_schedule gw sched (tasks[i := t], w1))
      else run_schedule gw sched (tasks, w))"

text \<open>
  \<^verbatim>\<open>as_completed(futures)\<close> yields every future once, in an order that depends
  on the threads. The order is given by a list of indices: the futures it names
  are yielded in the order of their first mention, the others after them in
  the order of submission.
\<close>

definition as_completed :: "nat \<Rightarrow> nat list \<Rightarrow> nat list" where
  "as_completed n order =
     remdups [i \<leftarrow> order. i < n] @ [i \<leftarrow> [0..<n]. i \<notin> set order]"

text \<open>The loop over \<^verbatim>\<open>as_completed(futures)\<close>.\<close>

fun collect ::
  "'g gateway \<Rightarrow> task list \<Rightarrow> nat list \<Rightarrow> int list \<times> outcome list \<times> 'g world
     \<Rightarrow> int list \<times> outcome list \<times> 'g world" where
  "collect gw tasks [] st = st"
| "collect gw tasks (i # rest) (closed_tickets, failed, w) =
     (case future_result gw (tasks ! i) w of (result, w1) \<Rightarrow>
        (if status result = ''closed''
         then collect gw tasks rest (closed_tickets @ [ticket result], failed, w1)
         else collect gw tasks rest (closed_tickets, failed @ [result], w1)))"

text \<open>The \<^verbatim>\<open>with ThreadPoolExecutor(max_workers=len(positions))\<close> block. The
  constructor raises \<^verbatim>\<open>ValueError\<close> unless \<^verbatim>\<open>max_workers\<close> is positive.\<close>

definition thread_pool ::
  "'g gateway \<Rightarrow> position list \<Rightarrow> nat list \<Rightarrow> nat list \<Rightarrow> 'g world
     \<Rightarrow> py_exception + (int list \<times> outcome list \<times> 'g world)" where
  "thread_pool gw positions sched order w =
     (if length positions \<le> 0 then Inl (ValueError ''max_workers must be greater than 0'')
      else
        (case run_schedule gw sched (map Submitted positions, w) of (futures, w1) \<Rightarrow>
           Inr (collect gw futures (as_completed (length futures) order) ([], [], w1))))"

text \<open>The endpoint. The query parameter \<^verbatim>\<open>magic\<close> is declared for the route
  and is an argument here; the body of the function does not read it.\<close>

definition close_all_positions_endpoint ::
  "'g gateway \<Rightarrow> int option \<Rightarrow> nat list \<Rightarrow> nat list \<Rightarrow> 'g world \<Rightarrow> response \<times> 'g world" where
  "close_all_positions_endpoint gw magic sched order w =
     (case mt5_initialize gw w of (ok, w1) \<Rightarrow>
        if \<not> ok then
          (case mt5_last_error gw w1 of (e, w2) \<Rightarrow>
             ((ErrorBody (''MT5 initialize failed: '' @ e), 500), w2))
        else
          (case mt5_positions_get gw None w1 of (positions, w2) \<Rightarrow>
             (case positions of
                None \<Rightarrow>
                  (let w3 = mt5_shutdown gw w2 in
                   (case mt5_last_error gw w3 of (e, w4) \<Rightarrow>
                      ((ErrorBody (''positions_get failed: '' @ e), 500), w4)))
              | Some ps \<Rightarrow>
                  (case thread_pool gw ps sched order w2 of
                     Inl e \<Rightarrow> ((ErrorBody ''Internal server error'', 500), w2)
                   | Inr (closed_tickets, failed, w3) \<Rightarrow>
                       (let w4 = mt5_shutdown gw w3 in
                        ((AllReport closed_tickets failed, 200), w4))))))"

section \<open>A terminal for the examples\<close>

text \<open>
  A small terminal on which the endpoints can be run: the open positions (or
  \<open>None\<close> when the terminal cannot list them), a table of quotes, and a table
  of scripted replies to orders, by position ticket. An order for an open
  position without a scripted reply is executed: the position leaves the list
  of open positions and the result echoes volume and price.
\<close>

record terminal =
  term_positions :: "position list option"
  term_quotes :: "(string \<times> tick) list"
  term_replies :: "(int \<times> order_result option) list"

definition terminal_order_send :: "order_request \<Rightarrow> terminal \<Rightarrow> order_result option \<times> terminal" where
  "terminal_order_send req g =
     (case map_of (term_replies g) (req_position req) of
        Some reply \<Rightarrow> (reply, g)
      | None \<Rightarrow>
          (case term_positions g of
             None \<Rightarrow> (None, g)
           | Some ps \<Rightarrow>
               (if req_position req \<in> set (map pos_ticket ps)
                then (Some \<lparr>res_retcode = TRADE_RETCODE_DONE, res_comment = ''Request executed'',
                            res_volume = req_volume req, res_price = req_price req\<rparr>,
                      g\<lparr>term_positions := Some [p \<leftarrow> ps. pos_ticket p \<noteq> req_position req]\<rparr>)
                else (Some \<lparr>res_retcode = 10013, res_comment = ''Invalid request'',
                            res_volume = 0, res_price = 0\<rparr>, g))))"

definition terminal_gateway :: "terminal gateway" where
  "terminal_gateway =
     \<lparr>gw_initialize = (\<lambda>g. (True, g)),
      gw_shutdown = (\<lambda>g. g),
      gw_last_error = (\<lambda>g. ''(-10004, 'No IPC connection')''),
      gw_positions_get = (\<lambda>t g.
         (case t of
            None \<Rightarrow> term_positions g
          | Some n \<Rightarrow> map_option (filter (\<lambda>p. pos_ticket p = n)) (term_positions g), g)),
      gw_symbol_info_tick = (\<lambda>name g. (map_of (term_quotes g) name, g)),
      gw_order_send = terminal_order_send\<rparr>"

definition start :: "'g \<Rightarrow> 'g world" where
  "start g = \<lparr>gstate = g, calls = []\<rparr>"

definition eurusd_buy :: "int \<Rightarrow> int \<Rightarrow> position" where
  "eurusd_buy t m =
     \<lparr>pos_ticket = t, pos_symbol = ''EURUSD'', pos_type = POSITION_TYPE_BUY,
      pos_volume = 1, pos_magic = m\<rparr>"

definition eurusd_quote :: tick where
  "eurusd_quote = \<lparr>bid = 1.1000, ask = 1.1002\<rparr>"

text \<open>The calls that belong to the closing of one item: a quote fetch or an
  order submission.\<close>

fun is_close_call :: "call \<Rightarrow> bool" where
  "is_close_call (SymbolInfoTick _) = True"
| "is_close_call (OrderSend _) = True"
| "is_close_call _ = False"

text \<open>The account of the concrete scenario: tickets 101 and 103 are open as
  buys of one lot of EURUSD, quoted 1.1000 / 1.1002.\<close>

definition two_buys :: terminal where
  "two_buys =
     \<lparr>term_positions = Some [eurusd_buy 101 0, eurusd_buy 103 0],
      term_quotes = [(''EURUSD'', eurusd_quote)],
      term_replies = []\<rparr>"

text \<open>A terminal that answers from fixed tables and never changes: the open
  positions, the quotes, and the result of an order by position ticket (no
  entry: no result).\<close>

definition scripted_gateway ::
  "position list \<Rightarrow> (string \<times> tick) list \<Rightarrow> (int \<times> order_result) list \<Rightarrow> unit gateway" where
  "scripted_gateway ps quotes results =
     \<lparr>gw_initialize = (\<lambda>g. (True, g)),
      gw_shutdown = (\<lambda>g. g),
      gw_last_error = (\<lambda>g. ''(1, 'Success')''),
      gw_positions_get = (\<lambda>t g.
         (Some (case t of None \<Rightarrow> ps | Some n \<Rightarrow> filter (\<lambda>p. pos_ticket p = n) ps), g)),
      gw_symbol_info_tick = (\<lambda>name g. (map_of quotes name, g)),
      gw_order_send = (\<lambda>req g. (map_of results (req_position req), g))\<rparr>"

text \<open>A rejection by the terminal, and the account of the scenario with the
  order for ticket 103 rejected.\<close>

definition market_closed :: order_result where
  "market_closed =
     \<lparr>res_retcode = 10018, res_comment = ''Market closed'', res_volume = 0, res_price = 0\<rparr>"

definition two_buys_second_rejected :: terminal where
  "two_buys_second_rejected = two_buys\<lparr>term_replies := [(103, Some market_closed)]\<rparr>"

text \<open>An account with one open sell.\<close>

definition eurusd_sell :: "int \<Rightarrow> int \<Rightarrow> position" where
  "eurusd_sell t m = (eurusd_buy t m)\<lparr>pos_type := POSITION_TYPE_SELL\<rparr>"

definition one_sell :: terminal where
  "one_sell = two_buys\<lparr>term_positions := Some [eurusd_sell 7 0]\<rparr>"

text \<open>Three open positions; the terminal has no quote for the symbol of the
  second one.\<close>

definition one_unquoted :: "unit gateway" where
  "one_unquoted =
     scripted_gateway
       [eurusd_buy 1 0, (eurusd_buy 2 0)\<lparr>pos_symbol := ''GBPUSD''\<rparr>, eurusd_buy 3 0]
       [(''EURUSD'', eurusd_quote)]
       [(1, \<lparr>res_retcode = TRADE_RETCODE_DONE, res_comment = ''Request executed'',
              res_volume = 1, res_price = 1.1000\<rparr>),
        (3, \<lparr>res_retcode = TRADE_RETCODE_DONE, res_comment = ''Request executed'',
              res_volume = 1, res_price = 1.1000\<rparr>)]"

section \<open>Notions used in the statements\<close>

text \<open>A terminal whose replies do not depend on its state: the same call is
  answered in the same way whenever it is made. On such a terminal the only
  way one item could influence another is through the endpoint itself.\<close>

definition fixed_replies :: "'g gateway \<Rightarrow> bool" where
  "fixed_replies gw \<longleftrightarrow>
     (\<forall>t g g'. fst (gw_positions_get gw t g) = fst (gw_positions_get gw t g')) \<and>
     (\<forall>n g g'. fst (gw_symbol_info_tick gw n g) = fst (gw_symbol_info_tick gw n g')) \<and>
     (\<forall>r g g'. fst (gw_order_send gw r g) = fst (gw_order_send gw r g'))"

text \<open>What the task of position \<open>p\<close> can be while the pool runs, on a terminal
  with fixed replies: not started, holding the request that its quote gives,
  or finished with the outcome that the worker computes on its own.\<close>

definition task_for :: "'g gateway \<Rightarrow> 'g world \<Rightarrow> position \<Rightarrow> task \<Rightarrow> bool" where
  "task_for gw w0 p t \<longleftrightarrow>
     t = Submitted p \<or>
     (\<exists>r. t = AwaitingSend p r \<and> fst (worker_tick gw p w0) = Inr r) \<or>
     t = Finished (fst (close_position gw p w0))"

text \<open>
  An item of \<^verbatim>\<open>close_positions_batch\<close> fails, at the state \<open>w\<close> in which the
  loop reaches its ticket \<open>t\<close>, in one of four ways: the lookup finds no open
  position, the quote cannot be fetched, the order comes back without a
  result, or the terminal rejects the order. \<open>ticket_fails gw t w entry w'\<close>
  names the entry that reports the failure and the state \<open>w'\<close> in which the
  calls of the item, and nothing else, leave the terminal.
\<close>

inductive ticket_fails ::
  "'g gateway \<Rightarrow> int \<Rightarrow> 'g world \<Rightarrow> failed_close \<Rightarrow> 'g world \<Rightarrow> bool"
  for gw :: "'g gateway" and t :: int and w :: "'g world" where
  not_found:
    "gw_positions_get gw (Some t) (gstate w) = (r, g) \<Longrightarrow> r = None \<or> r = Some [] \<Longrightarrow>
     ticket_fails gw t w
       \<lparr>fc_ticket = t, fc_error = ''Position not found.'', fc_result = None\<rparr>
       \<lparr>gstate = g, calls = calls w @ [PositionsGet (Some t)]\<rparr>"
| no_quote:
    "gw_positions_get gw (Some t) (gstate w) = (Some (p # ps), g) \<Longrightarrow>
     gw_symbol_info_tick gw (pos_symbol p) g = (None, g') \<Longrightarrow>
     ticket_fails gw t w
       \<lparr>fc_ticket = t, fc_error = ''Failed to get price for symbol '' @ pos_symbol p,
        fc_result = None\<rparr>
       \<lparr>gstate = g',
        calls = calls w @ [PositionsGet (Some t), SymbolInfoTick (pos_symbol p)]\<rparr>"
| no_result:
    "gw_positions_get gw (Some t) (gstate w) = (Some (p # ps), g) \<Longrightarrow>
     gw_symbol_info_tick gw (pos_symbol p) g = (Some q, g') \<Longrightarrow>
     r = batch_close_request p (batch_order_type p) (batch_price (batch_order_type p) q) \<Longrightarrow>
     gw_order_send gw r g' = (None, g'') \<Longrightarrow>
     ticket_fails gw t w
       \<lparr>fc_ticket = t, fc_error = ''order_send returned None'', fc_result = Some None\<rparr>
       \<lparr>gstate = g'',
        calls = calls w @ [PositionsGet (Some t), SymbolInfoTick (pos_symbol p), OrderSend r]\<rparr>"
| rejected:
    "gw_positions_get gw (Some t) (gstate w) = (Some (p # ps), g) \<Longrightarrow>
     gw_symbol_info_tick gw (pos_symbol p) g = (Some q, g') \<Longrightarrow>
     r = batch_close_request p (batch_order_type p) (batch_price (batch_order_type p) q) \<Longrightarrow>
     gw_order_send gw r g' = (Some res, g'') \<Longrightarrow>
     res_retcode res \<noteq> TRADE_RETCODE_DONE \<Longrightarrow>
     ticket_fails gw t w
       \<lparr>fc_ticket = t, fc_error = res_comment res, fc_result = Some (Some res)\<rparr>
       \<lparr>gstate = g'',
        calls = calls w @ [PositionsGet (Some t), SymbolInfoTick (pos_symbol p), OrderSend r]\<rparr>"

text \<open>
  A worker of \<^verbatim>\<open>close_all_positions\<close> fails with its next call, made at the
  state \<open>w\<close>, in one of three ways: it has not yet fetched its quote and the
  quote cannot be fetched; it holds its request and the order comes back
  without a result; or it holds its request and the terminal rejects the
  order. \<open>worker_fails gw task w out w'\<close> names the outcome that reports the
  failure and the state in which that one call leaves the terminal.
\<close>

inductive worker_fails ::
  "'g gateway \<Rightarrow> task \<Rightarrow> 'g world \<Rightarrow> outcome \<Rightarrow> 'g world \<Rightarrow> bool"
  for gw :: "'g gateway" where
  no_quote:
    "gw_symbol_info_tick gw (pos_symbol p) (gstate w) = (None, g) \<Longrightarrow>
     worker_fails gw (Submitted p) w
       \<lparr>status = ''failed'', ticket = pos_ticket p, symbol = None,
        error = Some (Message ([CHR 0x27] @ ''NoneType'' @ [CHR 0x27] @
                  '' object has no attribute '' @ [CHR 0x27] @
                  (if pos_type p = POSITION_TYPE_BUY then ''bid'' else ''ask'') @ [CHR 0x27]))\<rparr>
       \<lparr>gstate = g, calls = calls w @ [SymbolInfoTick (pos_symbol p)]\<rparr>"
| no_result:
    "gw_order_send gw r (gstate w) = (None, g) \<Longrightarrow>
     worker_fails gw (AwaitingSend p r) w
       \<lparr>status = ''failed'', ticket = pos_ticket p, symbol = None,
        error = Some (Message ([CHR 0x27] @ ''NoneType'' @ [CHR 0x27] @
                  '' object has no attribute '' @ [CHR 0x27] @ ''retcode'' @ [CHR 0x27]))\<rparr>
       \<lparr>gstate = g, calls = calls w @ [OrderSend r]\<rparr>"
| rejected:
    "gw_order_send gw r (gstate w) = (Some res, g) \<Longrightarrow>
     res_retcode res \<noteq> TRADE_RETCODE_DONE \<Longrightarrow>
     worker_fails gw (AwaitingSend p r) w
       \<lparr>status = ''failed'', ticket = pos_ticket p, symbol = Some (pos_symbol p),
        error = Some (Retcode (res_retcode res))\<rparr>
       \<lparr>gstate = g, calls = calls w @ [OrderSend r]\<rparr>"

text \<open>The ticket a task works for.\<close>

fun task_ticket :: "task \<Rightarrow> int" where
  "task_ticket (Submitted p) = pos_ticket p"
| "task_ticket (AwaitingSend p r) = pos_ticket p"
| "task_ticket (Finished out) = ticket out"

text \<open>
  What an item is reported as, written as a function of the replies of the
  terminal alone: the reply to the lookup, the reply to the quote fetch, and
  the reply to the order.
\<close>

definition entries_from_replies ::
  "int \<Rightarrow> position list option \<Rightarrow> (string \<Rightarrow> tick option)
     \<Rightarrow> (order_request \<Rightarrow> order_result option)
     \<Rightarrow> successful_close list \<times> failed_close list" where
  "entries_from_replies t lookup quote_of result_of =
     (case lookup of
        None \<Rightarrow> ([], [\<lparr>fc_ticket = t, fc_error = ''Position not found.'', fc_result = None\<rparr>])
      | Some [] \<Rightarrow>
          ([], [\<lparr>fc_ticket = t, fc_error = ''Position not found.'', fc_result = None\<rparr>])
      | Some (p # _) \<Rightarrow>
          (case quote_of (pos_symbol p) of
             None \<Rightarrow>
               ([], [\<lparr>fc_ticket = t,
                      fc_error = ''Failed to get price for symbol '' @ pos_symbol p,
                      fc_result = None\<rparr>])
           | Some q \<Rightarrow>
               (case result_of (batch_close_request p (batch_order_type p)
                                  (batch_price (batch_order_type p) q)) of
                  None \<Rightarrow>
                    ([], [\<lparr>fc_ticket = t, fc_error = ''order_send returned None'',
                           fc_result = Some None\<rparr>])
                | Some res \<Rightarrow>
                    (if res_retcode res = TRADE_RETCODE_DONE
                     then ([\<lparr>sc_ticket = t, sc_result = res\<rparr>], [])
                     else ([], [\<lparr>fc_ticket = t, fc_error = res_comment res,
                                 fc_result = Some (Some res)\<rparr>])))))"

definition outcome_from_replies ::
  "position \<Rightarrow> (string \<Rightarrow> tick option) \<Rightarrow> (order_request \<Rightarrow> order_result option)
     \<Rightarrow> outcome" where
  "outcome_from_replies p quote_of result_of =
     (case quote_of (pos_symbol p) of
        None \<Rightarrow>
          \<lparr>status = ''failed'', ticket = pos_ticket p, symbol = None,
           error = Some (Message ([CHR 0x27] @ ''NoneType'' @ [CHR 0x27] @
                     '' object has no attribute '' @ [CHR 0x27] @
                     (if pos_type p = POSITION_TYPE_BUY then ''bid'' else ''ask'') @
                     [CHR 0x27]))\<rparr>
      | Some q \<Rightarrow>
          (case result_of (all_order_request p (all_order_type p)
                             (if pos_type p = POSITION_TYPE_BUY then bid q else ask q)) of
             None \<Rightarrow>
               \<lparr>status = ''failed'', ticket = pos_ticket p, symbol = None,
                error = Some (Message ([CHR 0x27] @ ''NoneType'' @ [CHR 0x27] @
                          '' object has no attribute '' @ [CHR 0x27] @ ''retcode'' @
                          [CHR 0x27]))\<rparr>
           | Some res \<Rightarrow>
               (if res_retcode res = TRADE_RETCODE_DONE
                then \<lparr>status = ''closed'', ticket = pos_ticket p, symbol = None, error = None\<rparr>
                else \<lparr>status = ''failed'', ticket = pos_ticket p,
                      symbol = Some (pos_symbol p),
                      error = Some (Retcode (res_retcode res))\<rparr>)))"

text \<open>Three open EURUSD buys on the terminal of the examples, with no quote for
  the symbol of the second and a rejection scripted for the third.\<close>

definition three_buys :: terminal where
  "three_buys =
     \<lparr>term_positions =
        Some [eurusd_buy 1 0, (eurusd_buy 2 0)\<lparr>pos_symbol := ''GBPUSD''\<rparr>, eurusd_buy 3 0],
      term_quotes = [(''EURUSD'', eurusd_quote)],
      term_replies = [(3, Some market_closed)]\<rparr>"

section \<open>Unfolding rules\<close>

lemmas mt5_calls = mt5_initialize_def mt5_shutdown_def mt5_last_error_def
  mt5_positions_get_def mt5_symbol_info_tick_def mt5_order_send_def

lemmas mt5_constants = ORDER_TYPE_BUY_def ORDER_TYPE_SELL_def POSITION_TYPE_BUY_def
  POSITION_TYPE_SELL_def TRADE_ACTION_DEAL_def ORDER_TIME_GTC_def ORDER_FILLING_FOK_def
  ORDER_FILLING_IOC_def TRADE_RETCODE_DONE_def

lemmas close_all_defs = close_all_positions_endpoint_def thread_pool_def as_completed_def
  worker_tick_def worker_send_def send_outcome_def all_order_type_def all_order_request_def
  failed_exception_def none_has_no_attribute_def

lemmas batch_defs = close_positions_batch_endpoint_def close_ticket_def batch_order_type_def
  batch_price_def batch_close_request_def

lemmas terminal_defs = terminal_gateway_def terminal_order_send_def start_def eurusd_buy_def
  eurusd_quote_def

section \<open>The loop of \<^verbatim>\<open>close_positions_batch\<close>\<close>

text \<open>The two lists only grow: running the loop with lists that already hold
  entries appends to them what the loop yields from empty lists.\<close>

lemma close_ticket_acc:
  "close_ticket gw t (S, F, w) =
     (case close_ticket gw t ([], [], w) of (S', F', w') \<Rightarrow> (S @ S', F @ F', w'))"
  by (simp add: close_ticket_def Let_def split: prod.splits option.splits list.splits)

lemma batch_loop_acc:
  "batch_loop gw ts (S, F, w) =
     (case batch_loop gw ts ([], [], w) of (S', F', w') \<Rightarrow> (S @ S', F @ F', w'))"
proof (induction ts arbitrary: S F w)
  case Nil
  then show ?case by simp
next
  case (Cons t ts)
  obtain S1 F1 w1 where one: "close_ticket gw t ([], [], w) = (S1, F1, w1)"
    by (cases "close_ticket gw t ([], [], w)") auto
  obtain S2 F2 w2 where rest: "batch_loop gw ts ([], [], w1) = (S2, F2, w2)"
    by (cases "batch_loop gw ts ([], [], w1)") auto
  have "batch_loop gw (t # ts) (S, F, w) = batch_loop gw ts (S @ S1, F @ F1, w1)"
    using one by (simp add: close_ticket_acc [of gw t S F w])
  also have "\<dots> = (S @ S1 @ S2, F @ F1 @ F2, w2)"
    using rest by (simp add: Cons.IH [of "S @ S1" "F @ F1" w1])
  finally have left: "batch_loop gw (t # ts) (S, F, w) = (S @ S1 @ S2, F @ F1 @ F2, w2)" .
  have "batch_loop gw (t # ts) ([], [], w) = batch_loop gw ts (S1, F1, w1)"
    using one by simp
  also have "\<dots> = (S1 @ S2, F1 @ F2, w2)"
    using rest by (simp add: Cons.IH [of S1 F1 w1])
  finally show ?case using left by simp
qed

lemma batch_loop_append:
  "batch_loop gw (xs @ ys) st = batch_loop gw ys (batch_loop gw xs st)"
  by (induction xs arbitrary: st) auto

text \<open>One ticket adds one entry, to one of the two lists, under its own ticket.\<close>

lemma close_ticket_one:
  assumes "close_ticket gw t ([], [], w) = (S, F, w')"
  shows "(\<exists>r. S = [\<lparr>sc_ticket = t, sc_result = r\<rparr>] \<and> F = []) \<or>
         (\<exists>e r. S = [] \<and> F = [\<lparr>fc_ticket = t, fc_error = e, fc_result = r\<rparr>])"
  using assms
  by (auto simp: close_ticket_def Let_def split: prod.splits option.splits list.splits if_splits)



text \<open>The request list is an interleaving of the tickets of the two lists.\<close>

lemma batch_loop_shuffles:
  assumes "batch_loop gw ts ([], [], w) = (S, F, w')"
  shows "ts \<in> shuffles (map sc_ticket S) (map fc_ticket F)"
  using assms
proof (induction ts arbitrary: S F w w')
  case Nil
  then show ?case by simp
next
  case (Cons t ts)
  obtain S1 F1 w1 where one: "close_ticket gw t ([], [], w) = (S1, F1, w1)"
    by (cases "close_ticket gw t ([], [], w)") auto
  obtain S2 F2 w2 where rest: "batch_loop gw ts ([], [], w1) = (S2, F2, w2)"
    by (cases "batch_loop gw ts ([], [], w1)") auto
  have whole: "S = S1 @ S2" "F = F1 @ F2"
    using Cons.prems one rest by (simp_all add: batch_loop_acc [of gw ts S1 F1 w1])
  have tail: "ts \<in> shuffles (map sc_ticket S2) (map fc_ticket F2)"
    using Cons.IH [OF rest] .
  from close_ticket_one [OF one] show ?case
  proof
    assume "\<exists>r. S1 = [\<lparr>sc_ticket = t, sc_result = r\<rparr>] \<and> F1 = []"
    then show ?thesis using whole tail by (auto intro: Cons_in_shuffles_leftI)
  next
    assume "\<exists>e r. S1 = [] \<and> F1 = [\<lparr>fc_ticket = t, fc_error = e, fc_result = r\<rparr>]"
    then show ?thesis using whole tail by (auto intro: Cons_in_shuffles_rightI)
  qed
qed



lemma batch_loop_count:
  assumes "batch_loop gw ts ([], [], w) = (S, F, w')"
  shows "length S + length F = length ts"
  using length_shuffles [OF batch_loop_shuffles [OF assms]] by simp

lemma batch_loop_tickets:
  assumes "batch_loop gw ts ([], [], w) = (S, F, w')"
  shows "set (map sc_ticket S) \<subseteq> set ts"
  using batch_loop_shuffles [OF assms] by (auto simp: set_shuffles)

lemma batch_report_count:
  "\<exists>S F w'. close_positions_batch_endpoint gw (TicketList ts) w =
               ((BatchReport ''Batch close operation completed.'' S F, 200), w') \<and>
             length S + length F = length ts"
proof -
  obtain S F w' where run: "batch_loop gw ts ([], [], w) = (S, F, w')"
    by (cases "batch_loop gw ts ([], [], w)") auto
  show ?thesis using run batch_loop_count [OF run]
    by (simp add: close_positions_batch_endpoint_def)
qed

section \<open>The thread pool of \<^verbatim>\<open>close_all_positions\<close>\<close>

lemma collect_count:
  assumes "collect gw tasks idxs (C, F, w) = (C', F', w')"
  shows "length C' + length F' = length C + length F + length idxs"
  using assms
proof (induction idxs arbitrary: C F w)
  case Nil
  then show ?case by simp
next
  case (Cons i idxs)
  obtain r w1 where res: "future_result gw (tasks ! i) w = (r, w1)"
    by (cases "future_result gw (tasks ! i) w") auto
  show ?case
  proof (cases "status r = ''closed''")
    case True
    with Cons.prems res have "collect gw tasks idxs (C @ [ticket r], F, w1) = (C', F', w')"
      by simp
    from Cons.IH [OF this] show ?thesis by simp
  next
    case False
    with Cons.prems res have "collect gw tasks idxs (C, F @ [r], w1) = (C', F', w')"
      by simp
    from Cons.IH [OF this] show ?thesis by simp
  qed
qed

text \<open>\<^verbatim>\<open>as_completed\<close> yields every future exactly once.\<close>

lemma length_as_completed: "length (as_completed n order) = n"
proof -
  let ?A = "{i \<in> set order. i < n}" and ?B = "{i. i < n \<and> i \<notin> set order}"
  have a: "length (remdups [i \<leftarrow> order. i < n]) = card ?A"
    by (simp add: length_remdups_card_conv)
  have "distinct [i \<leftarrow> [0..<n]. i \<notin> set order]" by simp
  from distinct_card [OF this]
  have b: "length [i \<leftarrow> [0..<n]. i \<notin> set order] = card ?B" by simp
  have "?A \<inter> ?B = {}" "?A \<union> ?B = {..<n}" by auto
  moreover have "finite ?A" "finite ?B" by auto
  ultimately have "card ?A + card ?B = card {..<n}"
    using card_Un_disjoint [of ?A ?B] by simp
  then show ?thesis using a b by (simp add: as_completed_def)
qed

lemma as_completed_bound: "i \<in> set (as_completed n order) \<Longrightarrow> i < n"
  by (auto simp: as_completed_def)

lemma distinct_as_completed: "distinct (as_completed n order)"
  by (auto simp: as_completed_def)

lemma set_as_completed: "set (as_completed n order) = {..<n}"
  by (auto simp: as_completed_def)

lemma run_schedule_length:
  assumes "run_schedule gw sched (tasks, w) = (tasks', w')"
  shows "length tasks' = length tasks"
  using assms
proof (induction sched arbitrary: tasks w)
  case Nil
  then show ?case by simp
next
  case (Cons i sched)
  show ?case
  proof (cases "i < length tasks")
    case True
    obtain t w1 where step: "worker_step gw (tasks ! i) w = (t, w1)"
      by (cases "worker_step gw (tasks ! i) w") auto
    with Cons.prems True have "run_schedule gw sched (tasks[i := t], w1) = (tasks', w')"
      by simp
    from Cons.IH [OF this] show ?thesis by simp
  next
    case False
    with Cons.prems have "run_schedule gw sched (tasks, w) = (tasks', w')" by simp
    from Cons.IH [OF this] show ?thesis .
  qed
qed

lemma thread_pool_count:
  assumes "ps \<noteq> []"
  shows "\<exists>C F w'. thread_pool gw ps sched order w = Inr (C, F, w') \<and>
                   length C + length F = length ps"
proof -
  obtain futures w1 where run: "run_schedule gw sched (map Submitted ps, w) = (futures, w1)"
    by (cases "run_schedule gw sched (map Submitted ps, w)") auto
  obtain C F w' where coll:
    "collect gw futures (as_completed (length futures) order) ([], [], w1) = (C, F, w')"
    by (cases "collect gw futures (as_completed (length futures) order) ([], [], w1)") auto
  have "length futures = length ps" using run_schedule_length [OF run] by simp
  then have "length C + length F = length ps"
    using collect_count [OF coll] by (simp add: length_as_completed)
  then show ?thesis using assms run coll by (simp add: thread_pool_def)
qed

lemma close_all_report_count:
  assumes "gw_initialize gw (gstate w) = (True, g1)"
    and "gw_positions_get gw None g1 = (Some ps, g2)"
    and "ps \<noteq> []"
  shows "\<exists>C F w'. close_all_positions_endpoint gw magic sched order w =
                     ((AllReport C F, 200), w') \<and>
                   length C + length F = length ps"
proof -
  let ?w2 = "\<lparr>gstate = g2, calls = calls w @ [Initialize, PositionsGet None]\<rparr>"
  obtain C F w' where pool: "thread_pool gw ps sched order ?w2 = Inr (C, F, w')"
    and count: "length C + length F = length ps"
    using thread_pool_count [OF assms(3), of gw sched order ?w2] by blast
  show ?thesis using assms(1,2) pool count
    by (simp add: close_all_positions_endpoint_def mt5_initialize_def mt5_positions_get_def Let_def)
qed

section \<open>Terminals with fixed replies\<close>

lemma fixed_tick:
  "fixed_replies gw \<Longrightarrow> fst (mt5_symbol_info_tick gw n w) = fst (mt5_symbol_info_tick gw n w0)"
  unfolding fixed_replies_def mt5_symbol_info_tick_def
  by (simp add: case_prod_unfold)

lemma fixed_send:
  "fixed_replies gw \<Longrightarrow> fst (mt5_order_send gw r w) = fst (mt5_order_send gw r w0)"
  unfolding fixed_replies_def mt5_order_send_def
  by (simp add: case_prod_unfold)

lemma fixed_lookup:
  "fixed_replies gw \<Longrightarrow> fst (mt5_positions_get gw t w) = fst (mt5_positions_get gw t w0)"
  unfolding fixed_replies_def mt5_positions_get_def
  by (simp add: case_prod_unfold)

lemma fixed_worker_tick:
  assumes "fixed_replies gw"
  shows "fst (worker_tick gw p w) = fst (worker_tick gw p w0)"
proof -
  obtain a w1 where 1: "mt5_symbol_info_tick gw (pos_symbol p) w = (a, w1)"
    by (cases "mt5_symbol_info_tick gw (pos_symbol p) w") auto
  obtain b w2 where 2: "mt5_symbol_info_tick gw (pos_symbol p) w0 = (b, w2)"
    by (cases "mt5_symbol_info_tick gw (pos_symbol p) w0") auto
  have "a = b" using fixed_tick [OF assms, of "pos_symbol p" w w0] 1 2 by simp
  then show ?thesis using 1 2 by (simp add: worker_tick_def Let_def split: option.splits)
qed

lemma fixed_worker_send:
  assumes "fixed_replies gw"
  shows "fst (worker_send gw p r w) = fst (worker_send gw p r w0)"
proof -
  obtain a w1 where 1: "mt5_order_send gw r w = (a, w1)"
    by (cases "mt5_order_send gw r w") auto
  obtain b w2 where 2: "mt5_order_send gw r w0 = (b, w2)"
    by (cases "mt5_order_send gw r w0") auto
  have "a = b" using fixed_send [OF assms, of r w w0] 1 2 by simp
  then show ?thesis using 1 2 by (simp add: worker_send_def)
qed

lemma fixed_close_position:
  assumes "fixed_replies gw"
  shows "fst (close_position gw p w) = fst (close_position gw p w0)"
proof -
  obtain a w1 where 1: "worker_tick gw p w = (a, w1)"
    by (cases "worker_tick gw p w") auto
  obtain b w2 where 2: "worker_tick gw p w0 = (b, w2)"
    by (cases "worker_tick gw p w0") auto
  have ab: "a = b" using fixed_worker_tick [OF assms, of p w w0] 1 2 by simp
  show ?thesis
  proof (cases a)
    case (Inl r)
    then show ?thesis using 1 2 ab by (simp add: close_position_def)
  next
    case (Inr r)
    then show ?thesis using 1 2 ab fixed_worker_send [OF assms, of p r w1 w2]
      by (simp add: close_position_def)
  qed
qed

text \<open>Whatever the schedule does, the task of a position stays one of the three
  forms of \<open>task_for\<close>, and its result is the outcome of the worker run alone.\<close>

lemma task_for_step:
  assumes fixed: "fixed_replies gw" and inv: "task_for gw w0 p t"
  shows "task_for gw w0 p (fst (worker_step gw t w))"
proof -
  consider (new) "t = Submitted p"
    | (quoted) r where "t = AwaitingSend p r" "fst (worker_tick gw p w0) = Inr r"
    | (finished) "t = Finished (fst (close_position gw p w0))"
    using inv unfolding task_for_def by blast
  then show ?thesis
  proof cases
    case new
    obtain a w1 where 1: "worker_tick gw p w = (a, w1)"
      by (cases "worker_tick gw p w") auto
    obtain b w2 where 2: "worker_tick gw p w0 = (b, w2)"
      by (cases "worker_tick gw p w0") auto
    have ab: "a = b" using fixed_worker_tick [OF fixed, of p w w0] 1 2 by simp
    show ?thesis
    proof (cases a)
      case (Inl r)
      then show ?thesis using new 1 2 ab by (simp add: task_for_def close_position_def)
    next
      case (Inr r)
      then show ?thesis using new 1 2 ab by (simp add: task_for_def)
    qed
  next
    case quoted
    obtain b w2 where 2: "worker_tick gw p w0 = (b, w2)"
      by (cases "worker_tick gw p w0") auto
    with quoted have b: "b = Inr r" by simp
    obtain o1 w1 where 3: "worker_send gw p r w = (o1, w1)"
      by (cases "worker_send gw p r w") auto
    have "o1 = fst (worker_send gw p r w2)"
      using fixed_worker_send [OF fixed, of p r w w2] 3 by simp
    then show ?thesis using quoted 2 b 3 by (simp add: task_for_def close_position_def)
  next
    case finished
    then show ?thesis by (simp add: task_for_def)
  qed
qed

lemma task_for_result:
  assumes fixed: "fixed_replies gw" and inv: "task_for gw w0 p t"
  shows "fst (future_result gw t w) = fst (close_position gw p w0)"
proof -
  consider (new) "t = Submitted p"
    | (quoted) r where "t = AwaitingSend p r" "fst (worker_tick gw p w0) = Inr r"
    | (finished) "t = Finished (fst (close_position gw p w0))"
    using inv unfolding task_for_def by blast
  then show ?thesis
  proof cases
    case new
    then show ?thesis using fixed_close_position [OF fixed, of p w w0]
      by (simp add: close_position_def)
  next
    case quoted
    obtain b w2 where 2: "worker_tick gw p w0 = (b, w2)"
      by (cases "worker_tick gw p w0") auto
    with quoted have b: "b = Inr r" by simp
    show ?thesis using quoted 2 b fixed_worker_send [OF fixed, of p r w w2]
      by (simp add: close_position_def)
  next
    case finished
    then show ?thesis by simp
  qed
qed

lemma run_schedule_task_for:
  assumes fixed: "fixed_replies gw"
    and "list_all2 (task_for gw w0) ps tasks"
    and "run_schedule gw sched (tasks, w) = (tasks', w')"
  shows "list_all2 (task_for gw w0) ps tasks'"
  using assms(2,3)
proof (induction sched arbitrary: tasks w)
  case Nil
  then show ?case by simp
next
  case (Cons i sched)
  show ?case
  proof (cases "i < length tasks")
    case True
    obtain t w1 where step: "worker_step gw (tasks ! i) w = (t, w1)"
      by (cases "worker_step gw (tasks ! i) w") auto
    have "task_for gw w0 (ps ! i) (tasks ! i)"
      using Cons.prems(1) True by (simp add: list_all2_conv_all_nth)
    from task_for_step [OF fixed this, of w] step have "task_for gw w0 (ps ! i) t" by simp
    then have inv: "list_all2 (task_for gw w0) ps (tasks[i := t])"
      using Cons.prems(1) True by (auto simp: list_all2_conv_all_nth nth_list_update)
    from Cons.prems(2) True step
    have "run_schedule gw sched (tasks[i := t], w1) = (tasks', w')" by simp
    from Cons.IH [OF inv this] show ?thesis .
  next
    case False
    with Cons.prems(2) have "run_schedule gw sched (tasks, w) = (tasks', w')" by simp
    from Cons.IH [OF Cons.prems(1) this] show ?thesis .
  qed
qed

lemma collect_fixed:
  assumes fixed: "fixed_replies gw"
    and inv: "list_all2 (task_for gw w0) ps tasks"
    and "\<forall>i \<in> set idxs. i < length ps"
    and "collect gw tasks idxs (C, F, w) = (C', F', w')"
  shows "C' = C @ map ticket [r \<leftarrow> map (\<lambda>i. fst (close_position gw (ps ! i) w0)) idxs.
                               status r = ''closed''] \<and>
         F' = F @ [r \<leftarrow> map (\<lambda>i. fst (close_position gw (ps ! i) w0)) idxs.
                     status r \<noteq> ''closed'']"
  using assms(3,4)
proof (induction idxs arbitrary: C F w)
  case Nil
  then show ?case by simp
next
  case (Cons i idxs)
  obtain r w1 where res: "future_result gw (tasks ! i) w = (r, w1)"
    by (cases "future_result gw (tasks ! i) w") auto
  have "task_for gw w0 (ps ! i) (tasks ! i)"
    using inv Cons.prems(1) by (simp add: list_all2_conv_all_nth)
  from task_for_result [OF fixed this, of w] res
  have r: "r = fst (close_position gw (ps ! i) w0)" by simp
  have rest: "\<forall>i \<in> set idxs. i < length ps" using Cons.prems(1) by simp
  show ?case
  proof (cases "status r = ''closed''")
    case True
    with Cons.prems(2) res have "collect gw tasks idxs (C @ [ticket r], F, w1) = (C', F', w')"
      by simp
    from Cons.IH [OF rest this] True r show ?thesis by simp
  next
    case False
    with Cons.prems(2) res have "collect gw tasks idxs (C, F @ [r], w1) = (C', F', w')"
      by simp
    from Cons.IH [OF rest this] False r show ?thesis by simp
  qed
qed

lemma thread_pool_fixed:
  assumes fixed: "fixed_replies gw" and "ps \<noteq> []"
  shows "\<exists>w'. thread_pool gw ps sched order w =
           Inr (map ticket [r \<leftarrow> map (\<lambda>i. fst (close_position gw (ps ! i) w0))
                                    (as_completed (length ps) order). status r = ''closed''],
                [r \<leftarrow> map (\<lambda>i. fst (close_position gw (ps ! i) w0))
                        (as_completed (length ps) order). status r \<noteq> ''closed''],
                w')"
proof -
  obtain futures w1 where run: "run_schedule gw sched (map Submitted ps, w) = (futures, w1)"
    by (cases "run_schedule gw sched (map Submitted ps, w)") auto
  have len: "length futures = length ps" using run_schedule_length [OF run] by simp
  have "list_all2 (task_for gw w0) ps (map Submitted ps)"
    by (simp add: list_all2_conv_all_nth task_for_def)
  from run_schedule_task_for [OF fixed this run]
  have inv: "list_all2 (task_for gw w0) ps futures" .
  obtain C F w' where coll:
    "collect gw futures (as_completed (length ps) order) ([], [], w1) = (C, F, w')"
    by (cases "collect gw futures (as_completed (length ps) order) ([], [], w1)") auto
  have "\<forall>i \<in> set (as_completed (length ps) order). i < length ps"
    by (simp add: as_completed_bound)
  from collect_fixed [OF fixed inv this coll] assms(2) run coll len
  show ?thesis by (simp add: thread_pool_def)
qed

lemma fixed_close_ticket:
  assumes fixed: "fixed_replies gw"
    and run: "close_ticket gw t ([], [], w) = (S, F, w')"
  shows "S = fst (close_ticket gw t ([], [], w0)) \<and> F = fst (snd (close_ticket gw t ([], [], w0)))"
proof -
  obtain a w1 where 1: "mt5_positions_get gw (Some t) w = (a, w1)"
    by (cases "mt5_positions_get gw (Some t) w") auto
  define v1 where "v1 = snd (mt5_positions_get gw (Some t) w0)"
  have 2: "mt5_positions_get gw (Some t) w0 = (a, v1)"
    using fixed_lookup [OF fixed, of "Some t" w w0] 1 by (simp add: v1_def prod_eq_iff)
  consider (none) "a = None" | (empty) "a = Some []" | (found) p ps where "a = Some (p # ps)"
    by (metis list.exhaust option.exhaust)
  then show ?thesis
  proof cases
    case none
    then show ?thesis using run 1 2 by (simp add: close_ticket_def)
  next
    case empty
    then show ?thesis using run 1 2 by (simp add: close_ticket_def)
  next
    case found
    obtain c w2 where 3: "mt5_symbol_info_tick gw (pos_symbol p) w1 = (c, w2)"
      by (cases "mt5_symbol_info_tick gw (pos_symbol p) w1") auto
    define v2 where "v2 = snd (mt5_symbol_info_tick gw (pos_symbol p) v1)"
    have 4: "mt5_symbol_info_tick gw (pos_symbol p) v1 = (c, v2)"
      using fixed_tick [OF fixed, of "pos_symbol p" w1 v1] 3 by (simp add: v2_def prod_eq_iff)
    show ?thesis
    proof (cases c)
      case None
      then show ?thesis using run 1 2 found 3 4 by (simp add: close_ticket_def)
    next
      case (Some q)
      let ?r = "batch_close_request p (batch_order_type p) (batch_price (batch_order_type p) q)"
      obtain e w3 where 5: "mt5_order_send gw ?r w2 = (e, w3)"
        by (cases "mt5_order_send gw ?r w2") auto
      define v3 where "v3 = snd (mt5_order_send gw ?r v2)"
      have 6: "mt5_order_send gw ?r v2 = (e, v3)"
        using fixed_send [OF fixed, of ?r w2 v2] 5 by (simp add: v3_def prod_eq_iff)
      show ?thesis
      proof (cases e)
        case None
        then show ?thesis using run 1 2 found 3 4 Some 5 6 by (simp add: close_ticket_def)
      next
        case (Some res)
        then show ?thesis using run 1 2 found 3 4 \<open>c = Some q\<close> 5 6
          by (cases "res_retcode res = TRADE_RETCODE_DONE") (simp_all add: close_ticket_def)
      qed
    qed
  qed
qed

lemma batch_loop_fixed:
  assumes fixed: "fixed_replies gw"
    and "batch_loop gw ts ([], [], w) = (S, F, w')"
  shows "S = concat (map (\<lambda>t. fst (close_ticket gw t ([], [], w0))) ts) \<and>
         F = concat (map (\<lambda>t. fst (snd (close_ticket gw t ([], [], w0)))) ts)"
  using assms(2)
proof (induction ts arbitrary: S F w w')
  case Nil
  then show ?case by simp
next
  case (Cons t ts)
  obtain S1 F1 w1 where one: "close_ticket gw t ([], [], w) = (S1, F1, w1)"
    by (cases "close_ticket gw t ([], [], w)") auto
  obtain S2 F2 w2 where rest: "batch_loop gw ts ([], [], w1) = (S2, F2, w2)"
    by (cases "batch_loop gw ts ([], [], w1)") auto
  have whole: "S = S1 @ S2" "F = F1 @ F2"
    using Cons.prems one rest by (simp_all add: batch_loop_acc [of gw ts S1 F1 w1])
  from fixed_close_ticket [OF fixed one, of w0] Cons.IH [OF rest] whole
  show ?case by simp
qed

section \<open>Items that fail\<close>

text \<open>A failing ticket adds its entry to \<^verbatim>\<open>failed_closes\<close>, leaves
  \<^verbatim>\<open>successful_closes\<close> alone, and leaves the terminal as its own calls left
  it.\<close>

lemma ticket_fails_close_ticket:
  assumes "ticket_fails gw t w entry w'"
  shows "close_ticket gw t (S, F, w) = (S, F @ [entry], w') \<and> fc_ticket entry = t"
  using assms
  by (induction rule: ticket_fails.induct)
     (auto simp: close_ticket_def mt5_calls Let_def)

text \<open>A failing call ends the worker with the failed outcome, under the ticket
  of its position.\<close>

lemma worker_fails_step:
  assumes "worker_fails gw task w out w'"
  shows "worker_step gw task w = (Finished out, w') \<and> status out = ''failed'' \<and>
         ticket out = task_ticket task"
  using assms
  by (induction rule: worker_fails.induct)
     (auto simp: worker_tick_def worker_send_def send_outcome_def failed_exception_def
        none_has_no_attribute_def all_order_type_def mt5_calls mt5_constants Let_def)

lemma run_schedule_append:
  "run_schedule gw (a @ b) st = run_schedule gw b (run_schedule gw a st)"
proof (induction a arbitrary: st)
  case Nil
  then show ?case by simp
next
  case (Cons i a)
  obtain tasks w where st: "st = (tasks, w)" by (cases st)
  show ?case unfolding st
    by (cases "worker_step gw (tasks ! i) w") (simp add: Cons.IH)
qed

lemma worker_step_ticket: "task_ticket (fst (worker_step gw task w)) = task_ticket task"
proof (cases task)
  case (Submitted p)
  then show ?thesis
    by (auto simp: worker_tick_def failed_exception_def Let_def split: prod.splits option.splits)
next
  case (AwaitingSend p r)
  then show ?thesis
    by (auto simp: worker_send_def send_outcome_def failed_exception_def
        split: prod.splits option.splits)
next
  case (Finished out)
  then show ?thesis by simp
qed

lemma run_schedule_tickets:
  assumes "run_schedule gw sched (tasks, w) = (tasks', w')"
  shows "map task_ticket tasks' = map task_ticket tasks"
  using assms
proof (induction sched arbitrary: tasks w)
  case Nil
  then show ?case by simp
next
  case (Cons i sched)
  show ?case
  proof (cases "i < length tasks")
    case True
    obtain t w1 where step: "worker_step gw (tasks ! i) w = (t, w1)"
      by (cases "worker_step gw (tasks ! i) w") auto
    with Cons.prems True have "run_schedule gw sched (tasks[i := t], w1) = (tasks', w')"
      by simp
    from Cons.IH [OF this] have "map task_ticket tasks' = map task_ticket (tasks[i := t])" .
    moreover have "task_ticket t = task_ticket (tasks ! i)"
      using worker_step_ticket [of gw "tasks ! i" w] step by simp
    ultimately show ?thesis using True by (simp add: map_update list_update_same_conv)
  next
    case False
    with Cons.prems have "run_schedule gw sched (tasks, w) = (tasks', w')" by simp
    from Cons.IH [OF this] show ?thesis .
  qed
qed

text \<open>A finished task is not touched again, and a failed outcome reaches the
  list \<^verbatim>\<open>failed\<close>.\<close>

lemma run_schedule_finished:
  assumes "run_schedule gw sched (tasks, w) = (tasks', w')"
    and "i < length tasks" and "tasks ! i = Finished out"
  shows "tasks' ! i = Finished out"
  using assms
proof (induction sched arbitrary: tasks w)
  case Nil
  then show ?case by simp
next
  case (Cons j sched)
  show ?case
  proof (cases "j < length tasks")
    case True
    obtain t w1 where step: "worker_step gw (tasks ! j) w = (t, w1)"
      by (cases "worker_step gw (tasks ! j) w") auto
    with Cons.prems(1) True have run: "run_schedule gw sched (tasks[j := t], w1) = (tasks', w')"
      by simp
    have "tasks[j := t] ! i = Finished out"
    proof (cases "j = i")
      case True
      with step Cons.prems(3) have "t = Finished out" by simp
      with True Cons.prems(2) show ?thesis by simp
    next
      case False
      with Cons.prems(3) show ?thesis by simp
    qed
    with Cons.IH [OF run] Cons.prems(2) show ?thesis by simp
  next
    case False
    with Cons.prems(1) have "run_schedule gw sched (tasks, w) = (tasks', w')" by simp
    from Cons.IH [OF this Cons.prems(2,3)] show ?thesis .
  qed
qed

lemma collect_grows:
  assumes "collect gw tasks idxs (C, F, w) = (C', F', w')"
  shows "set F \<subseteq> set F'"
  using assms
proof (induction idxs arbitrary: C F w)
  case Nil
  then show ?case by simp
next
  case (Cons i idxs)
  obtain r w1 where res: "future_result gw (tasks ! i) w = (r, w1)"
    by (cases "future_result gw (tasks ! i) w") auto
  show ?case
  proof (cases "status r = ''closed''")
    case True
    with Cons.prems res have "collect gw tasks idxs (C @ [ticket r], F, w1) = (C', F', w')"
      by simp
    from Cons.IH [OF this] show ?thesis .
  next
    case False
    with Cons.prems res have "collect gw tasks idxs (C, F @ [r], w1) = (C', F', w')"
      by simp
    from Cons.IH [OF this] show ?thesis by simp
  qed
qed

lemma collect_failed_member:
  assumes "collect gw tasks idxs (C, F, w) = (C', F', w')"
    and "i \<in> set idxs" and "tasks ! i = Finished out" and "status out \<noteq> ''closed''"
  shows "out \<in> set F'"
  using assms
proof (induction idxs arbitrary: C F w)
  case Nil
  then show ?case by simp
next
  case (Cons j idxs)
  obtain r w1 where res: "future_result gw (tasks ! j) w = (r, w1)"
    by (cases "future_result gw (tasks ! j) w") auto
  show ?case
  proof (cases "j = i")
    case True
    with res Cons.prems(3) have r: "r = out" by simp
    with Cons.prems(1,4) res have "collect gw tasks idxs (C, F @ [out], w1) = (C', F', w')"
      by simp
    from collect_grows [OF this] show ?thesis by auto
  next
    case False
    with Cons.prems(2) have mem: "i \<in> set idxs" by simp
    show ?thesis
    proof (cases "status r = ''closed''")
      case True
      with Cons.prems(1) res have "collect gw tasks idxs (C @ [ticket r], F, w1) = (C', F', w')"
        by simp
      from Cons.IH [OF this mem Cons.prems(3,4)] show ?thesis .
    next
      case False
      with Cons.prems(1) res have "collect gw tasks idxs (C, F @ [r], w1) = (C', F', w')"
        by simp
      from Cons.IH [OF this mem Cons.prems(3,4)] show ?thesis .
    qed
  qed
qed

text \<open>On a terminal with fixed replies the entries are the ones written out in
  \<open>entries_from_replies\<close> and \<open>outcome_from_replies\<close>.\<close>

lemma fixed_entries_from_replies:
  assumes fixed: "fixed_replies gw"
  shows "(fst (close_ticket gw t ([], [], w)), fst (snd (close_ticket gw t ([], [], w)))) =
         entries_from_replies t (fst (gw_positions_get gw (Some t) ga))
           (\<lambda>s. fst (gw_symbol_info_tick gw s ga)) (\<lambda>r. fst (gw_order_send gw r ga))"
proof -
  obtain a g1 where 1: "gw_positions_get gw (Some t) (gstate w) = (a, g1)"
    by (cases "gw_positions_get gw (Some t) (gstate w)") auto
  have a: "fst (gw_positions_get gw (Some t) ga) = a"
    using fixed 1 unfolding fixed_replies_def by (metis fst_conv)
  consider (none) "a = None" | (empty) "a = Some []" | (found) p ps where "a = Some (p # ps)"
    by (metis list.exhaust option.exhaust)
  then show ?thesis
  proof cases
    case none
    then show ?thesis using 1 a
      by (simp add: close_ticket_def mt5_calls entries_from_replies_def Let_def)
  next
    case empty
    then show ?thesis using 1 a
      by (simp add: close_ticket_def mt5_calls entries_from_replies_def Let_def)
  next
    case found
    obtain c g2 where 2: "gw_symbol_info_tick gw (pos_symbol p) g1 = (c, g2)"
      by (cases "gw_symbol_info_tick gw (pos_symbol p) g1") auto
    have c: "fst (gw_symbol_info_tick gw (pos_symbol p) ga) = c"
      using fixed 2 unfolding fixed_replies_def by (metis fst_conv)
    show ?thesis
    proof (cases c)
      case None
      then show ?thesis using 1 a found 2 c
        by (simp add: close_ticket_def mt5_calls entries_from_replies_def Let_def)
    next
      case (Some q)
      let ?r = "batch_close_request p (batch_order_type p) (batch_price (batch_order_type p) q)"
      obtain e g3 where 3: "gw_order_send gw ?r g2 = (e, g3)"
        by (cases "gw_order_send gw ?r g2") auto
      have e: "fst (gw_order_send gw ?r ga) = e"
        using fixed 3 unfolding fixed_replies_def by (metis fst_conv)
      show ?thesis
      proof (cases e)
        case None
        then show ?thesis using 1 a found 2 c Some 3 e
          by (simp add: close_ticket_def mt5_calls entries_from_replies_def Let_def)
      next
        case (Some res)
        then show ?thesis using 1 a found 2 c \<open>c = Some q\<close> 3 e
          by (simp add: close_ticket_def mt5_calls entries_from_replies_def Let_def)
      qed
    qed
  qed
qed

lemma fixed_outcome_from_replies:
  assumes fixed: "fixed_replies gw"
  shows "fst (close_position gw p w) =
         outcome_from_replies p (\<lambda>s. fst (gw_symbol_info_tick gw s ga))
           (\<lambda>r. fst (gw_order_send gw r ga))"
proof -
  obtain c g1 where 1: "gw_symbol_info_tick gw (pos_symbol p) (gstate w) = (c, g1)"
    by (cases "gw_symbol_info_tick gw (pos_symbol p) (gstate w)") auto
  have c: "fst (gw_symbol_info_tick gw (pos_symbol p) ga) = c"
    using fixed 1 unfolding fixed_replies_def by (metis fst_conv)
  show ?thesis
  proof (cases c)
    case None
    then show ?thesis using 1 c
      by (simp add: close_position_def worker_tick_def mt5_calls outcome_from_replies_def
          failed_exception_def none_has_no_attribute_def all_order_type_def mt5_constants)
  next
    case (Some q)
    let ?r = "all_order_request p (all_order_type p)
                (if pos_type p = POSITION_TYPE_BUY then bid q else ask q)"
    obtain e g2 where 2: "gw_order_send gw ?r g1 = (e, g2)"
      by (cases "gw_order_send gw ?r g1") auto
    have e: "fst (gw_order_send gw ?r ga) = e"
      using fixed 2 unfolding fixed_replies_def by (metis fst_conv)
    have price: "(if all_order_type p = ORDER_TYPE_SELL then bid q else ask q) =
                 (if pos_type p = POSITION_TYPE_BUY then bid q else ask q)"
      by (simp add: all_order_type_def mt5_constants)
    show ?thesis using 1 c Some 2 e
      by (cases e)
         (simp_all add: close_position_def worker_tick_def worker_send_def send_outcome_def
           mt5_calls outcome_from_replies_def failed_exception_def none_has_no_attribute_def
           Let_def price)
  qed
qed

text \<open>
  Waiting for a future is the same as letting its worker take its remaining
  steps. Every run of the pool is therefore the run of a schedule in which all
  workers have finished before the first result is collected, so that every
  call of a worker is a step of some schedule.
\<close>

lemma two_steps_finish:
  assumes "worker_step gw task w = (t1, w1)" and "worker_step gw t1 w1 = (t2, w2)"
  shows "t2 = Finished (fst (future_result gw task w)) \<and> w2 = snd (future_result gw task w)"
proof (cases task)
  case (Submitted p)
  then show ?thesis using assms
    by (cases "worker_tick gw p w"; cases "fst (worker_tick gw p w)")
       (auto split: prod.splits)
next
  case (AwaitingSend p r)
  then show ?thesis using assms by (auto split: prod.splits)
next
  case (Finished out)
  then show ?thesis using assms by auto
qed

lemma collect_cong:
  assumes "\<forall>i \<in> set idxs. tasks ! i = tasks' ! i"
  shows "collect gw tasks idxs st = collect gw tasks' idxs st"
  using assms
proof (induction idxs arbitrary: st)
  case Nil
  then show ?case by simp
next
  case (Cons i idxs)
  obtain C F w where st: "st = (C, F, w)" by (cases st)
  from Cons.prems have same: "tasks ! i = tasks' ! i" and rest: "\<forall>i \<in> set idxs. tasks ! i = tasks' ! i"
    by simp_all
  show ?case unfolding st using same Cons.IH [OF rest]
    by (simp split: prod.splits)
qed

lemma collect_after_joins:
  assumes "distinct idxs" and "\<forall>i \<in> set idxs. i < length tasks"
    and "run_schedule gw (concat (map (\<lambda>i. [i, i]) idxs)) (tasks, w) = (tasks', w')"
  shows "collect gw tasks idxs (C, F, w) = collect gw tasks' idxs (C, F, w')"
  using assms
proof (induction idxs arbitrary: tasks w C F)
  case Nil
  then show ?case by simp
next
  case (Cons i idxs)
  from Cons.prems(2) have i: "i < length tasks" by simp
  obtain t1 w1 where s1: "worker_step gw (tasks ! i) w = (t1, w1)"
    by (cases "worker_step gw (tasks ! i) w") auto
  obtain t2 w2 where s2: "worker_step gw t1 w1 = (t2, w2)"
    by (cases "worker_step gw t1 w1") auto
  obtain out where out: "future_result gw (tasks ! i) w = (out, w2)" and t2: "t2 = Finished out"
    using two_steps_finish [OF s1 s2] by (cases "future_result gw (tasks ! i) w") auto
  let ?tasks = "tasks[i := Finished out]"
  have run: "run_schedule gw (concat (map (\<lambda>i. [i, i]) idxs)) (?tasks, w2) = (tasks', w')"
    using Cons.prems(3) i s1 s2 t2 by simp
  have notin: "i \<notin> set idxs" and dist: "distinct idxs" using Cons.prems(1) by simp_all
  have bound: "\<forall>j \<in> set idxs. j < length ?tasks" using Cons.prems(2) by simp
  have fin: "tasks' ! i = Finished out"
    using run_schedule_finished [OF run] i by simp
  have same: "\<forall>j \<in> set idxs. tasks ! j = ?tasks ! j"
    using notin by (metis nth_list_update_neq)
  show ?case
  proof (cases "status out = ''closed''")
    case True
    have "collect gw tasks (i # idxs) (C, F, w) = collect gw tasks idxs (C @ [ticket out], F, w2)"
      using out True by simp
    also have "\<dots> = collect gw ?tasks idxs (C @ [ticket out], F, w2)"
      by (rule collect_cong [OF same])
    also have "\<dots> = collect gw tasks' idxs (C @ [ticket out], F, w')"
      by (rule Cons.IH [OF dist bound run])
    also have "\<dots> = collect gw tasks' (i # idxs) (C, F, w')"
      using fin True by simp
    finally show ?thesis .
  next
    case False
    have "collect gw tasks (i # idxs) (C, F, w) = collect gw tasks idxs (C, F @ [out], w2)"
      using out False by simp
    also have "\<dots> = collect gw ?tasks idxs (C, F @ [out], w2)"
      by (rule collect_cong [OF same])
    also have "\<dots> = collect gw tasks' idxs (C, F @ [out], w')"
      by (rule Cons.IH [OF dist bound run])
    also have "\<dots> = collect gw tasks' (i # idxs) (C, F, w')"
      using fin False by simp
    finally show ?thesis .
  qed
qed

lemma thread_pool_complete_schedule:
  "thread_pool gw ps sched order w =
   thread_pool gw ps
     (sched @ concat (map (\<lambda>i. [i, i]) (as_completed (length ps) order))) order w"
proof (cases "ps = []")
  case True
  then show ?thesis by (simp add: thread_pool_def)
next
  case False
  let ?idxs = "as_completed (length ps) order"
  obtain futures w1 where run: "run_schedule gw sched (map Submitted ps, w) = (futures, w1)"
    by (cases "run_schedule gw sched (map Submitted ps, w)") auto
  have len: "length futures = length ps" using run_schedule_length [OF run] by simp
  obtain futures' w2 where
    drain: "run_schedule gw (concat (map (\<lambda>i. [i, i]) ?idxs)) (futures, w1) = (futures', w2)"
    by (cases "run_schedule gw (concat (map (\<lambda>i. [i, i]) ?idxs)) (futures, w1)") auto
  have len': "length futures' = length ps" using run_schedule_length [OF drain] len by simp
  have bound: "\<forall>i \<in> set ?idxs. i < length futures"
    using len by (simp add: as_completed_bound)
  have "collect gw futures ?idxs ([], [], w1) = collect gw futures' ?idxs ([], [], w2)"
    by (rule collect_after_joins [OF distinct_as_completed bound drain])
  then show ?thesis using False run drain len len'
    by (simp add: thread_pool_def run_schedule_append)
qed

section \<open>One outcome per item\<close>

text \<open>
  Claim C1. \<^verbatim>\<open>close_positions_batch\<close> always answers 200 with a report whose two
  lists together have one entry per submitted ticket, duplicates included. So
  does \<^verbatim>\<open>close_all_positions\<close> for every account with at least one open
  position, under every schedule of the workers and every order of
  collection. For an account without open positions the claim asks for a
  report with no entries; the endpoint answers 500 and there is no report.
\<close>

theorem report_counts_except_empty_account:
  "(\<exists>S F w'. close_positions_batch_endpoint gw (TicketList ts) w =
                ((BatchReport ''Batch close operation completed.'' S F, 200), w') \<and>
              length S + length F = length ts) \<and>
   (gw_initialize gw (gstate v) = (True, ga) \<and> gw_positions_get gw None ga = (Some ps, gb) \<longrightarrow>
      (if ps = []
       then fst (close_all_positions_endpoint gw magic sched order v) =
              (ErrorBody ''Internal server error'', 500)
       else (\<exists>C F v'. close_all_positions_endpoint gw magic sched order v =
                         ((AllReport C F, 200), v') \<and>
                       length C + length F = length ps)))"
proof (intro conjI impI)
  show "\<exists>S F w'. close_positions_batch_endpoint gw (TicketList ts) w =
                ((BatchReport ''Batch close operation completed.'' S F, 200), w') \<and>
              length S + length F = length ts"
    by (rule batch_report_count)
next
  assume fetch: "gw_initialize gw (gstate v) = (True, ga) \<and>
                 gw_positions_get gw None ga = (Some ps, gb)"
  show "if ps = []
       then fst (close_all_positions_endpoint gw magic sched order v) =
              (ErrorBody ''Internal server error'', 500)
       else (\<exists>C F v'. close_all_positions_endpoint gw magic sched order v =
                         ((AllReport C F, 200), v') \<and>
                       length C + length F = length ps)"
  proof (cases "ps = []")
    case True
    then show ?thesis using fetch
      by (simp add: close_all_positions_endpoint_def mt5_calls thread_pool_def)
  next
    case False
    then show ?thesis
      using fetch close_all_report_count [of gw v ga ps gb magic sched order] by simp
  qed
qed

theorem report_counts_except_empty_account_witness:
  "fst (close_all_positions_endpoint terminal_gateway None [] []
          (start (two_buys\<lparr>term_positions := Some []\<rparr>))) =
     (ErrorBody ''Internal server error'', 500)"
  using report_counts_except_empty_account [where gw = terminal_gateway
      and v = "start (two_buys\<lparr>term_positions := Some []\<rparr>)"
      and ga = "two_buys\<lparr>term_positions := Some []\<rparr>" and ps = "[]"
      and gb = "two_buys\<lparr>term_positions := Some []\<rparr>"
      and magic = None and sched = "[]" and order = "[]"]
  by (simp add: terminal_gateway_def start_def)

section \<open>No open positions\<close>

text \<open>
  Claim C2. When the terminal lists no open position, \<^verbatim>\<open>len(positions)\<close> is 0,
  the constructor of the thread pool raises, and the handler around the
  endpoint answers 500 \<^verbatim>\<open>Internal server error\<close>. The claim expects 200 with
  two empty lists. No quote is fetched and no order is sent, as the claim
  says; the terminal is not shut down either.
\<close>

theorem no_open_positions_internal_error:
  assumes "gw_initialize gw (gstate w) = (True, g1)"
    and "gw_positions_get gw None g1 = (Some [], g2)"
  shows "close_all_positions_endpoint gw magic sched order w =
           ((ErrorBody ''Internal server error'', 500),
            \<lparr>gstate = g2, calls = calls w @ [Initialize, PositionsGet None]\<rparr>)"
  using assms by (simp add: close_all_positions_endpoint_def mt5_calls thread_pool_def)

theorem no_open_positions_internal_error_witness:
  "close_all_positions_endpoint terminal_gateway None [] []
     (start \<lparr>term_positions = Some [], term_quotes = [], term_replies = []\<rparr>) =
   ((ErrorBody ''Internal server error'', 500),
    \<lparr>gstate = \<lparr>term_positions = Some [], term_quotes = [], term_replies = []\<rparr>,
     calls = [Initialize, PositionsGet None]\<rparr>)"
  using no_open_positions_internal_error [of terminal_gateway
      "start \<lparr>term_positions = Some [], term_quotes = [], term_replies = []\<rparr>"
      "\<lparr>term_positions = Some [], term_quotes = [], term_replies = []\<rparr>"
      "\<lparr>term_positions = Some [], term_quotes = [], term_replies = []\<rparr>"
      None "[]" "[]"]
  by (simp add: terminal_gateway_def start_def)

section \<open>The magic number\<close>

lemma magic_is_not_read:
  "close_all_positions_endpoint gw magic sched order w =
   close_all_positions_endpoint gw None sched order w"
  by (simp add: close_all_positions_endpoint_def)

text \<open>
  Claim C3. The endpoint never reads the query parameter \<^verbatim>\<open>magic\<close>. With two
  open positions tagged 7 and 9 and the request \<^verbatim>\<open>magic=7\<close>, an order is sent
  for both and both are reported closed; the claim expects the position tagged
  9 to stay open.
\<close>

theorem magic_filter_not_applied:
  "close_all_positions_endpoint terminal_gateway (Some 7) [] []
     (start \<lparr>term_positions = Some [eurusd_buy 1 7, eurusd_buy 2 9],
             term_quotes = [(''EURUSD'', eurusd_quote)], term_replies = []\<rparr>) =
   ((AllReport [1, 2] [], 200),
    \<lparr>gstate = \<lparr>term_positions = Some [], term_quotes = [(''EURUSD'', eurusd_quote)],
                term_replies = []\<rparr>,
     calls = [Initialize, PositionsGet None,
              SymbolInfoTick ''EURUSD'',
              OrderSend (all_order_request (eurusd_buy 1 7) ORDER_TYPE_SELL (bid eurusd_quote)),
              SymbolInfoTick ''EURUSD'',
              OrderSend (all_order_request (eurusd_buy 2 9) ORDER_TYPE_SELL (bid eurusd_quote)),
              Shutdown]\<rparr>)"
  by (simp add: close_all_defs mt5_calls terminal_defs mt5_constants)

section \<open>A failing item does not touch the others\<close>

text \<open>
  Claim C4. Whatever the terminal replies, no failure of an item leaves the
  endpoint as an exception: \<^verbatim>\<open>close_positions_batch\<close> answers 200 with one
  entry per ticket, and \<^verbatim>\<open>close_all_positions\<close>, given at least one open
  position, answers 200 with one entry per position.

  On every terminal, stateful or not: when a ticket of \<^verbatim>\<open>close_positions_batch\<close>
  fails (\<open>ticket_fails\<close>: not found, no quote, no result, or rejected), the
  report holds exactly the entry of that failure for it, in \<^verbatim>\<open>failed_closes\<close>;
  the tickets before it have the entries they have without it, and the tickets
  after it have the entries that the loop gives them from the state in which
  the calls of the failing ticket, and nothing else, left the terminal. When
  the next call of a worker of \<^verbatim>\<open>close_all_positions\<close> fails at any moment of
  any schedule (\<open>worker_fails\<close>: no quote, no result, or rejected), the step
  changes the task of that worker only, the run goes on with all other tasks
  as they were and the terminal as that one call left it, and the report holds
  the failed outcome, under the ticket of the worker's position, in
  \<^verbatim>\<open>failed\<close>.

  On a terminal with fixed replies the entry of every item is the function of
  the replies to its own calls that is written out in \<open>entries_from_replies\<close>
  and \<open>outcome_from_replies\<close>: it depends neither on the other items of the
  batch, nor on the failure of one of them, nor on the schedule of the workers.
\<close>

theorem item_failure_stays_with_its_item:
  "(\<exists>S F w'. close_positions_batch_endpoint gw (TicketList ts) w =
                ((BatchReport ''Batch close operation completed.'' S F, 200), w') \<and>
              length S + length F = length ts) \<and>
   (gw_initialize gw (gstate v) = (True, ga) \<and> gw_positions_get gw None ga = (Some ps, gb) \<and>
    ps \<noteq> [] \<longrightarrow>
      (\<exists>C F v'. close_all_positions_endpoint gw magic sched order v =
                   ((AllReport C F, 200), v') \<and>
                 length C + length F = length ps)) \<and>
   (batch_loop gw xs ([], [], w) = (Sa, Fa, wa) \<and> ticket_fails gw t wa entry wb \<and>
    batch_loop gw ys ([], [], wb) = (Sb, Fb, wc) \<longrightarrow>
      close_positions_batch_endpoint gw (TicketList (xs @ t # ys)) w =
        ((BatchReport ''Batch close operation completed.'' (Sa @ Sb) (Fa @ entry # Fb), 200),
         wc) \<and>
      fc_ticket entry = t \<and>
      set (map sc_ticket (Sa @ Sb)) \<subseteq> set xs \<union> set ys \<and>
      length Sa + length Fa = length xs \<and> length Sb + length Fb = length ys) \<and>
   (gw_initialize gw (gstate v) = (True, ga) \<and> gw_positions_get gw None ga = (Some ps, gb) \<and>
    run_schedule gw pre
      (map Submitted ps, \<lparr>gstate = gb, calls = calls v @ [Initialize, PositionsGet None]\<rparr>) =
      (tasksa, va) \<and>
    i < length ps \<and> worker_fails gw (tasksa ! i) va out vb \<and>
    run_schedule gw post (tasksa[i := Finished out], vb) = (tasksb, vc) \<and>
    collect gw tasksb (as_completed (length ps) order) ([], [], vc) = (C, F, vd) \<longrightarrow>
      close_all_positions_endpoint gw magic (pre @ i # post) order v =
        ((AllReport C F, 200), mt5_shutdown gw vd) \<and>
      out \<in> set F \<and> status out = ''failed'' \<and> ticket out = pos_ticket (ps ! i) \<and>
      length C + length F = length ps) \<and>
   (fixed_replies gw \<longrightarrow>
      fst (close_positions_batch_endpoint gw (TicketList ts) w) =
        (BatchReport ''Batch close operation completed.''
           (concat (map (\<lambda>t. fst (entries_from_replies t (fst (gw_positions_get gw (Some t) gc))
                                    (\<lambda>s. fst (gw_symbol_info_tick gw s gc))
                                    (\<lambda>r. fst (gw_order_send gw r gc)))) ts))
           (concat (map (\<lambda>t. snd (entries_from_replies t (fst (gw_positions_get gw (Some t) gc))
                                    (\<lambda>s. fst (gw_symbol_info_tick gw s gc))
                                    (\<lambda>r. fst (gw_order_send gw r gc)))) ts)),
         200)) \<and>
   (fixed_replies gw \<and> gw_initialize gw (gstate v) = (True, ga) \<and>
    gw_positions_get gw None ga = (Some ps, gb) \<and> ps \<noteq> [] \<longrightarrow>
      (let outcomes = map (\<lambda>i. outcome_from_replies (ps ! i)
                                  (\<lambda>s. fst (gw_symbol_info_tick gw s gc))
                                  (\<lambda>r. fst (gw_order_send gw r gc)))
                          (as_completed (length ps) order)
       in fst (close_all_positions_endpoint gw magic sched order v) =
            (AllReport (map ticket [r \<leftarrow> outcomes. status r = ''closed''])
                       [r \<leftarrow> outcomes. status r \<noteq> ''closed''],
             200)))"
proof (intro conjI impI)
  show "\<exists>S F w'. close_positions_batch_endpoint gw (TicketList ts) w =
                ((BatchReport ''Batch close operation completed.'' S F, 200), w') \<and>
              length S + length F = length ts"
    by (rule batch_report_count)
next
  assume "gw_initialize gw (gstate v) = (True, ga) \<and>
          gw_positions_get gw None ga = (Some ps, gb) \<and> ps \<noteq> []"
  then show "\<exists>C F v'. close_all_positions_endpoint gw magic sched order v =
                   ((AllReport C F, 200), v') \<and> length C + length F = length ps"
    using close_all_report_count [of gw v ga ps gb magic sched order] by blast
next
  assume hyps: "batch_loop gw xs ([], [], w) = (Sa, Fa, wa) \<and> ticket_fails gw t wa entry wb \<and>
    batch_loop gw ys ([], [], wb) = (Sb, Fb, wc)"
  then have before: "batch_loop gw xs ([], [], w) = (Sa, Fa, wa)"
    and fails: "ticket_fails gw t wa entry wb"
    and after: "batch_loop gw ys ([], [], wb) = (Sb, Fb, wc)" by simp_all
  have one: "close_ticket gw t (Sa, Fa, wa) = (Sa, Fa @ [entry], wb)"
    and own: "fc_ticket entry = t"
    using ticket_fails_close_ticket [OF fails, of Sa Fa] by simp_all
  have "batch_loop gw (xs @ t # ys) ([], [], w) = batch_loop gw ys (Sa, Fa @ [entry], wb)"
    using before one by (simp add: batch_loop_append)
  also have "\<dots> = (Sa @ Sb, (Fa @ [entry]) @ Fb, wc)"
    using after by (simp add: batch_loop_acc [of gw ys Sa "Fa @ [entry]" wb])
  finally have "batch_loop gw (xs @ t # ys) ([], [], w) = (Sa @ Sb, Fa @ entry # Fb, wc)"
    by simp
  then have response: "close_positions_batch_endpoint gw (TicketList (xs @ t # ys)) w =
      ((BatchReport ''Batch close operation completed.'' (Sa @ Sb) (Fa @ entry # Fb), 200), wc)"
    by (simp add: close_positions_batch_endpoint_def)
  have tickets: "set (map sc_ticket (Sa @ Sb)) \<subseteq> set xs \<union> set ys"
    using batch_loop_tickets [OF before] batch_loop_tickets [OF after] by auto
  show "close_positions_batch_endpoint gw (TicketList (xs @ t # ys)) w =
        ((BatchReport ''Batch close operation completed.'' (Sa @ Sb) (Fa @ entry # Fb), 200),
         wc)" by (rule response)
  show "fc_ticket entry = t" by (rule own)
  show "set (map sc_ticket (Sa @ Sb)) \<subseteq> set xs \<union> set ys" by (rule tickets)
  show "length Sa + length Fa = length xs" by (rule batch_loop_count [OF before])
  show "length Sb + length Fb = length ys" by (rule batch_loop_count [OF after])
next
  assume hyps: "gw_initialize gw (gstate v) = (True, ga) \<and>
    gw_positions_get gw None ga = (Some ps, gb) \<and>
    run_schedule gw pre
      (map Submitted ps, \<lparr>gstate = gb, calls = calls v @ [Initialize, PositionsGet None]\<rparr>) =
      (tasksa, va) \<and>
    i < length ps \<and> worker_fails gw (tasksa ! i) va out vb \<and>
    run_schedule gw post (tasksa[i := Finished out], vb) = (tasksb, vc) \<and>
    collect gw tasksb (as_completed (length ps) order) ([], [], vc) = (C, F, vd)"
  let ?v2 = "\<lparr>gstate = gb, calls = calls v @ [Initialize, PositionsGet None]\<rparr>"
  from hyps have init: "gw_initialize gw (gstate v) = (True, ga)"
    and fetch: "gw_positions_get gw None ga = (Some ps, gb)"
    and pre: "run_schedule gw pre (map Submitted ps, ?v2) = (tasksa, va)"
    and i: "i < length ps"
    and fails: "worker_fails gw (tasksa ! i) va out vb"
    and post: "run_schedule gw post (tasksa[i := Finished out], vb) = (tasksb, vc)"
    and coll: "collect gw tasksb (as_completed (length ps) order) ([], [], vc) = (C, F, vd)"
    by simp_all
  have len: "length tasksa = length ps" using run_schedule_length [OF pre] by simp
  have len': "length tasksb = length ps" using run_schedule_length [OF post] len by simp
  have step: "worker_step gw (tasksa ! i) va = (Finished out, vb)"
    and failed: "status out = ''failed''"
    and own: "ticket out = task_ticket (tasksa ! i)"
    using worker_fails_step [OF fails] by simp_all
  have "map task_ticket tasksa = map task_ticket (map Submitted ps)"
    by (rule run_schedule_tickets [OF pre])
  then have "map task_ticket tasksa ! i = map task_ticket (map Submitted ps) ! i" by simp
  then have mine: "task_ticket (tasksa ! i) = pos_ticket (ps ! i)" using i len by simp
  have whole: "run_schedule gw (pre @ i # post) (map Submitted ps, ?v2) = (tasksb, vc)"
    using pre step post i len by (simp add: run_schedule_append)
  have ne: "ps \<noteq> []" using i by auto
  have pool: "thread_pool gw ps (pre @ i # post) order ?v2 = Inr (C, F, vd)"
    using whole coll len' ne by (simp add: thread_pool_def)
  have fin: "tasksb ! i = Finished out"
    using run_schedule_finished [OF post] i len by simp
  have "i \<in> set (as_completed (length ps) order)"
    using i by (simp add: set_as_completed)
  from collect_failed_member [OF coll this fin] failed have member: "out \<in> set F" by simp
  have count: "length C + length F = length ps"
    using collect_count [OF coll] by (simp add: length_as_completed)
  show "close_all_positions_endpoint gw magic (pre @ i # post) order v =
        ((AllReport C F, 200), mt5_shutdown gw vd)"
    using init fetch pool
    by (simp add: close_all_positions_endpoint_def mt5_initialize_def mt5_positions_get_def)
  show "out \<in> set F" by (rule member)
  show "status out = ''failed''" by (rule failed)
  show "ticket out = pos_ticket (ps ! i)" using own mine by simp
  show "length C + length F = length ps" by (rule count)
next
  assume fixed: "fixed_replies gw"
  let ?wc = "\<lparr>gstate = gc, calls = []\<rparr>"
  obtain S F w' where run: "batch_loop gw ts ([], [], w) = (S, F, w')"
    by (cases "batch_loop gw ts ([], [], w)") auto
  have entries: "fst (close_ticket gw t ([], [], ?wc)) =
        fst (entries_from_replies t (fst (gw_positions_get gw (Some t) gc))
               (\<lambda>s. fst (gw_symbol_info_tick gw s gc)) (\<lambda>r. fst (gw_order_send gw r gc)))"
    "fst (snd (close_ticket gw t ([], [], ?wc))) =
        snd (entries_from_replies t (fst (gw_positions_get gw (Some t) gc))
               (\<lambda>s. fst (gw_symbol_info_tick gw s gc)) (\<lambda>r. fst (gw_order_send gw r gc)))" for t
    using fixed_entries_from_replies [OF fixed, of t ?wc gc] by (simp_all add: prod_eq_iff)
  from batch_loop_fixed [OF fixed run, of ?wc] run
  show "fst (close_positions_batch_endpoint gw (TicketList ts) w) =
        (BatchReport ''Batch close operation completed.''
           (concat (map (\<lambda>t. fst (entries_from_replies t (fst (gw_positions_get gw (Some t) gc))
                                    (\<lambda>s. fst (gw_symbol_info_tick gw s gc))
                                    (\<lambda>r. fst (gw_order_send gw r gc)))) ts))
           (concat (map (\<lambda>t. snd (entries_from_replies t (fst (gw_positions_get gw (Some t) gc))
                                    (\<lambda>s. fst (gw_symbol_info_tick gw s gc))
                                    (\<lambda>r. fst (gw_order_send gw r gc)))) ts)),
         200)"
    by (simp add: close_positions_batch_endpoint_def entries)
next
  assume hyps: "fixed_replies gw \<and> gw_initialize gw (gstate v) = (True, ga) \<and>
    gw_positions_get gw None ga = (Some ps, gb) \<and> ps \<noteq> []"
  let ?v2 = "\<lparr>gstate = gb, calls = calls v @ [Initialize, PositionsGet None]\<rparr>"
  let ?wc = "\<lparr>gstate = gc, calls = []\<rparr>"
  from hyps have fixed: "fixed_replies gw" and ne: "ps \<noteq> []" by simp_all
  have explicit: "fst (close_position gw p ?wc) =
      outcome_from_replies p (\<lambda>s. fst (gw_symbol_info_tick gw s gc))
        (\<lambda>r. fst (gw_order_send gw r gc))" for p
    by (rule fixed_outcome_from_replies [OF fixed])
  from thread_pool_fixed [OF fixed ne, of sched order ?v2 ?wc]
  obtain v' where pool: "thread_pool gw ps sched order ?v2 =
           Inr (map ticket [r \<leftarrow> map (\<lambda>i. fst (close_position gw (ps ! i) ?wc))
                                    (as_completed (length ps) order). status r = ''closed''],
                [r \<leftarrow> map (\<lambda>i. fst (close_position gw (ps ! i) ?wc))
                        (as_completed (length ps) order). status r \<noteq> ''closed''],
                v')" by blast
  show "let outcomes = map (\<lambda>i. outcome_from_replies (ps ! i)
                                  (\<lambda>s. fst (gw_symbol_info_tick gw s gc))
                                  (\<lambda>r. fst (gw_order_send gw r gc)))
                          (as_completed (length ps) order)
       in fst (close_all_positions_endpoint gw magic sched order v) =
            (AllReport (map ticket [r \<leftarrow> outcomes. status r = ''closed''])
                       [r \<leftarrow> outcomes. status r \<noteq> ''closed''],
             200)"
    using hyps pool
    by (simp add: close_all_positions_endpoint_def mt5_initialize_def mt5_positions_get_def
        Let_def explicit)
qed

theorem item_failure_stays_with_its_item_witness:
  "fst (close_positions_batch_endpoint terminal_gateway (TicketList [1, 2, 3])
          (start three_buys)) =
     (BatchReport ''Batch close operation completed.''
        [\<lparr>sc_ticket = 1,
          sc_result = \<lparr>res_retcode = TRADE_RETCODE_DONE, res_comment = ''Request executed'',
                        res_volume = 1, res_price = 1.1000\<rparr>\<rparr>]
        [\<lparr>fc_ticket = 2, fc_error = ''Failed to get price for symbol GBPUSD'',
          fc_result = None\<rparr>,
         \<lparr>fc_ticket = 3, fc_error = ''Market closed'',
          fc_result = Some (Some market_closed)\<rparr>],
      200)
   \<and> fst (close_all_positions_endpoint terminal_gateway None [0, 2, 1, 2, 0] [2, 0]
            (start three_buys)) =
     (AllReport [1]
        [\<lparr>status = ''failed'', ticket = 3, symbol = Some ''EURUSD'',
          error = Some (Retcode 10018)\<rparr>,
         \<lparr>status = ''failed'', ticket = 2, symbol = None,
          error = Some (Message ([CHR 0x27] @ ''NoneType'' @ [CHR 0x27] @
                    '' object has no attribute '' @ [CHR 0x27] @ ''bid'' @ [CHR 0x27]))\<rparr>],
      200)
   \<and> fst (close_positions_batch_endpoint one_unquoted (TicketList [1, 2, 3]) (start ())) =
     (BatchReport ''Batch close operation completed.''
        [\<lparr>sc_ticket = 1,
          sc_result = \<lparr>res_retcode = TRADE_RETCODE_DONE, res_comment = ''Request executed'',
                        res_volume = 1, res_price = 1.1000\<rparr>\<rparr>,
         \<lparr>sc_ticket = 3,
          sc_result = \<lparr>res_retcode = TRADE_RETCODE_DONE, res_comment = ''Request executed'',
                        res_volume = 1, res_price = 1.1000\<rparr>\<rparr>]
        [\<lparr>fc_ticket = 2, fc_error = ''Failed to get price for symbol GBPUSD'',
          fc_result = None\<rparr>],
      200)
   \<and> fst (close_all_positions_endpoint one_unquoted None [0, 1, 2, 2, 1, 0] [2, 0] (start ())) =
     (AllReport [3, 1]
        [\<lparr>status = ''failed'', ticket = 2, symbol = None,
          error = Some (Message ([CHR 0x27] @ ''NoneType'' @ [CHR 0x27] @
                    '' object has no attribute '' @ [CHR 0x27] @ ''bid'' @ [CHR 0x27]))\<rparr>],
      200)"
proof -
  let ?p1 = "eurusd_buy 1 0"
  let ?p2 = "(eurusd_buy 2 0)\<lparr>pos_symbol := ''GBPUSD''\<rparr>"
  let ?p3 = "eurusd_buy 3 0"
  let ?left = "three_buys\<lparr>term_positions := Some [?p2, ?p3]\<rparr>"
  let ?ok = "\<lparr>res_retcode = TRADE_RETCODE_DONE, res_comment = ''Request executed'',
               res_volume = 1, res_price = 1.1000\<rparr>"
  let ?noquote = "\<lparr>fc_ticket = 2, fc_error = ''Failed to get price for symbol GBPUSD'',
                    fc_result = None\<rparr>"
  let ?wa = "\<lparr>gstate = ?left,
              calls = [PositionsGet (Some 1), SymbolInfoTick ''EURUSD'',
                       OrderSend (batch_close_request ?p1 ORDER_TYPE_SELL 1.1000)]\<rparr>"
  let ?wb = "\<lparr>gstate = ?left,
              calls = calls ?wa @ [PositionsGet (Some 2), SymbolInfoTick ''GBPUSD'']\<rparr>"
  let ?wc = "\<lparr>gstate = ?left,
              calls = calls ?wb @ [PositionsGet (Some 3), SymbolInfoTick ''EURUSD'',
                       OrderSend (batch_close_request ?p3 ORDER_TYPE_SELL 1.1000)]\<rparr>"
  have before: "batch_loop terminal_gateway [1] ([], [], start three_buys) =
      ([\<lparr>sc_ticket = 1, sc_result = ?ok\<rparr>], [], ?wa)"
    by (simp add: batch_defs mt5_calls terminal_defs mt5_constants three_buys_def
        market_closed_def Let_def)
  have "ticket_fails terminal_gateway 2 ?wa
      \<lparr>fc_ticket = 2, fc_error = ''Failed to get price for symbol '' @ pos_symbol ?p2,
       fc_result = None\<rparr>
      \<lparr>gstate = ?left,
       calls = calls ?wa @ [PositionsGet (Some 2), SymbolInfoTick (pos_symbol ?p2)]\<rparr>"
    by (rule ticket_fails.no_quote [where ps = "[]" and g = ?left])
       (simp_all add: terminal_defs three_buys_def)
  then have fails: "ticket_fails terminal_gateway 2 ?wa ?noquote ?wb"
    by (simp add: eurusd_buy_def)
  have after: "batch_loop terminal_gateway [3] ([], [], ?wb) =
      ([], [\<lparr>fc_ticket = 3, fc_error = ''Market closed'',
              fc_result = Some (Some market_closed)\<rparr>], ?wc)"
    by (simp add: batch_defs mt5_calls terminal_defs mt5_constants three_buys_def
        market_closed_def Let_def)
  have batch: "fst (close_positions_batch_endpoint terminal_gateway (TicketList [1, 2, 3])
          (start three_buys)) =
     (BatchReport ''Batch close operation completed.''
        [\<lparr>sc_ticket = 1, sc_result = ?ok\<rparr>]
        [?noquote, \<lparr>fc_ticket = 3, fc_error = ''Market closed'',
                    fc_result = Some (Some market_closed)\<rparr>], 200)"
    using item_failure_stays_with_its_item [where gw = terminal_gateway
        and w = "start three_buys" and xs = "[1]" and t = 2 and ys = "[3]"
        and Sa = "[\<lparr>sc_ticket = 1, sc_result = ?ok\<rparr>]" and Fa = "[]" and wa = ?wa
        and entry = ?noquote and wb = ?wb
        and Sb = "[]"
        and Fb = "[\<lparr>fc_ticket = 3, fc_error = ''Market closed'',
                      fc_result = Some (Some market_closed)\<rparr>]"
        and wc = ?wc]
      before fails after
    by simp
  let ?r1 = "all_order_request ?p1 ORDER_TYPE_SELL 1.1000"
  let ?r3 = "all_order_request ?p3 ORDER_TYPE_SELL 1.1000"
  let ?nobid = "\<lparr>status = ''failed'', ticket = 2, symbol = None,
          error = Some (Message ([CHR 0x27] @ ''NoneType'' @ [CHR 0x27] @
                    '' object has no attribute '' @ [CHR 0x27] @ ''bid'' @ [CHR 0x27]))\<rparr>"
  let ?rej = "\<lparr>status = ''failed'', ticket = 3, symbol = Some ''EURUSD'',
          error = Some (Retcode 10018)\<rparr>"
  let ?closed = "\<lparr>status = ''closed'', ticket = 1, symbol = None, error = None\<rparr>"
  let ?va = "\<lparr>gstate = three_buys,
              calls = [Initialize, PositionsGet None, SymbolInfoTick ''EURUSD'',
                       SymbolInfoTick ''EURUSD'']\<rparr>"
  let ?vb = "\<lparr>gstate = three_buys, calls = calls ?va @ [SymbolInfoTick ''GBPUSD'']\<rparr>"
  let ?vc = "\<lparr>gstate = ?left, calls = calls ?vb @ [OrderSend ?r3, OrderSend ?r1]\<rparr>"
  have pre: "run_schedule terminal_gateway [0, 2]
      (map Submitted [?p1, ?p2, ?p3],
       \<lparr>gstate = three_buys, calls = calls (start three_buys) @ [Initialize, PositionsGet None]\<rparr>) =
      ([AwaitingSend ?p1 ?r1, Submitted ?p2, AwaitingSend ?p3 ?r3], ?va)"
    by (simp add: close_all_defs mt5_calls terminal_defs mt5_constants three_buys_def
        market_closed_def Let_def)
  have "worker_fails terminal_gateway (Submitted ?p2) ?va
      \<lparr>status = ''failed'', ticket = pos_ticket ?p2, symbol = None,
        error = Some (Message ([CHR 0x27] @ ''NoneType'' @ [CHR 0x27] @
                  '' object has no attribute '' @ [CHR 0x27] @
                  (if pos_type ?p2 = POSITION_TYPE_BUY then ''bid'' else ''ask'') @ [CHR 0x27]))\<rparr>
      \<lparr>gstate = three_buys, calls = calls ?va @ [SymbolInfoTick (pos_symbol ?p2)]\<rparr>"
    by (rule worker_fails.no_quote) (simp add: terminal_defs three_buys_def)
  then have fails_all: "worker_fails terminal_gateway
      ([AwaitingSend ?p1 ?r1, Submitted ?p2, AwaitingSend ?p3 ?r3] ! 1) ?va ?nobid ?vb"
    by (simp add: eurusd_buy_def)
  have post: "run_schedule terminal_gateway [2, 0]
      ([AwaitingSend ?p1 ?r1, Submitted ?p2, AwaitingSend ?p3 ?r3][1 := Finished ?nobid], ?vb) =
      ([Finished ?closed, Finished ?nobid, Finished ?rej], ?vc)"
    by (simp add: close_all_defs mt5_calls terminal_defs mt5_constants three_buys_def
        market_closed_def Let_def)
  have coll: "collect terminal_gateway [Finished ?closed, Finished ?nobid, Finished ?rej]
      (as_completed (length [?p1, ?p2, ?p3]) [2, 0]) ([], [], ?vc) = ([1], [?rej, ?nobid], ?vc)"
    by (simp add: as_completed_def)
  have init: "gw_initialize terminal_gateway (gstate (start three_buys)) = (True, three_buys)"
    and fetch: "gw_positions_get terminal_gateway None three_buys =
                  (Some [?p1, ?p2, ?p3], three_buys)"
    by (simp_all add: terminal_defs three_buys_def)
  have all: "fst (close_all_positions_endpoint terminal_gateway None [0, 2, 1, 2, 0] [2, 0]
            (start three_buys)) = (AllReport [1] [?rej, ?nobid], 200)"
    using item_failure_stays_with_its_item [where gw = terminal_gateway
        and v = "start three_buys" and ga = three_buys and ps = "[?p1, ?p2, ?p3]"
        and gb = three_buys and pre = "[0, 2]"
        and tasksa = "[AwaitingSend ?p1 ?r1, Submitted ?p2, AwaitingSend ?p3 ?r3]"
        and va = ?va and i = 1 and out = ?nobid and vb = ?vb and post = "[2, 0]"
        and tasksb = "[Finished ?closed, Finished ?nobid, Finished ?rej]" and vc = ?vc
        and order = "[2, 0]" and C = "[1]" and F = "[?rej, ?nobid]" and vd = ?vc
        and magic = None]
      init fetch pre fails_all post coll
    by simp
  have fixed: "fixed_replies one_unquoted"
    by (simp add: fixed_replies_def one_unquoted_def scripted_gateway_def)
  have scripted: "fst (close_positions_batch_endpoint one_unquoted (TicketList [1, 2, 3])
        (start ())) =
     (BatchReport ''Batch close operation completed.''
        [\<lparr>sc_ticket = 1, sc_result = ?ok\<rparr>, \<lparr>sc_ticket = 3, sc_result = ?ok\<rparr>]
        [?noquote], 200)
   \<and> fst (close_all_positions_endpoint one_unquoted None [0, 1, 2, 2, 1, 0] [2, 0] (start ())) =
     (AllReport [3, 1] [?nobid], 200)"
    using item_failure_stays_with_its_item [where gw = one_unquoted and ts = "[1, 2, 3]"
        and w = "start ()" and v = "start ()" and ga = "()" and gb = "()" and gc = "()"
        and magic = None and sched = "[0, 1, 2, 2, 1, 0]" and order = "[2, 0]"
        and ps = "[?p1, ?p2, ?p3]"]
      fixed
    by (simp add: entries_from_replies_def outcome_from_replies_def as_completed_def
        batch_defs all_order_request_def all_order_type_def one_unquoted_def
        scripted_gateway_def start_def eurusd_buy_def eurusd_quote_def mt5_constants Let_def)
  show ?thesis using batch all scripted by (simp add: market_closed_def)
qed

section \<open>The result of the order decides the outcome\<close>

text \<open>
  Claim C5, as it is stated, for \<^verbatim>\<open>close_all_positions\<close>: a rejected order is
  reported with the return code as its error, without the comment of the
  terminal and without the result. Here the order for ticket 103 is rejected
  with code 10018 and comment \<^verbatim>\<open>Market closed\<close>.
\<close>

theorem close_all_rejection_carries_retcode_only:
  "fst (close_all_positions_endpoint terminal_gateway None [] [] (start two_buys_second_rejected)) =
     (AllReport [101]
        [\<lparr>status = ''failed'', ticket = 103, symbol = Some ''EURUSD'',
          error = Some (Retcode 10018)\<rparr>], 200)
   \<and> Some (Retcode 10018) \<noteq> Some (Message (res_comment market_closed))"
  by (simp add: close_all_defs mt5_calls terminal_defs mt5_constants two_buys_def
      two_buys_second_rejected_def market_closed_def)

text \<open>
  Claim C5, amended. In \<^verbatim>\<open>close_positions_batch\<close>, once the order has been
  sent: no result gives a failed entry with the error
  \<^verbatim>\<open>order_send returned None\<close>; a result with another return code than
  \<^verbatim>\<open>TRADE_RETCODE_DONE\<close> gives a failed entry with the comment of the
  terminal as error and the result attached; \<^verbatim>\<open>TRADE_RETCODE_DONE\<close> gives a
  successful entry with the ticket and the result. In \<^verbatim>\<open>close_all_positions\<close>:
  no result gives a failed outcome whose error is the text of the exception
  raised by reading \<^verbatim>\<open>retcode\<close> of \<^verbatim>\<open>None\<close>; another return code gives a
  failed outcome with the symbol and the return code as error;
  \<^verbatim>\<open>TRADE_RETCODE_DONE\<close> gives a closed outcome, whose ticket the collecting
  loop appends to \<^verbatim>\<open>closed\<close>.
\<close>

theorem order_result_decides_outcome:
  "(gw_positions_get gw (Some t) (gstate w) = (Some (p # ps), ga) \<and>
    gw_symbol_info_tick gw (pos_symbol p) ga = (Some q, gb) \<and>
    gw_order_send gw
      (batch_close_request p (batch_order_type p) (batch_price (batch_order_type p) q)) gb =
      (result, gc) \<longrightarrow>
      (case close_ticket gw t (S, F, w) of (S', F', w') \<Rightarrow> (S', F')) =
        (case result of
           None \<Rightarrow>
             (S, F @ [\<lparr>fc_ticket = t, fc_error = ''order_send returned None'',
                       fc_result = Some None\<rparr>])
         | Some res \<Rightarrow>
             if res_retcode res = TRADE_RETCODE_DONE
             then (S @ [\<lparr>sc_ticket = t, sc_result = res\<rparr>], F)
             else (S, F @ [\<lparr>fc_ticket = t, fc_error = res_comment res,
                             fc_result = Some (Some res)\<rparr>])))
   \<and> (gw_order_send gw r (gstate v) = (result, g) \<longrightarrow>
        fst (worker_send gw p r v) =
          (case result of
             None \<Rightarrow>
               \<lparr>status = ''failed'', ticket = pos_ticket p, symbol = None,
                error = Some (Message ([CHR 0x27] @ ''NoneType'' @ [CHR 0x27] @
                          '' object has no attribute '' @ [CHR 0x27] @ ''retcode'' @ [CHR 0x27]))\<rparr>
           | Some res \<Rightarrow>
               if res_retcode res = TRADE_RETCODE_DONE
               then \<lparr>status = ''closed'', ticket = pos_ticket p, symbol = None, error = None\<rparr>
               else \<lparr>status = ''failed'', ticket = pos_ticket p, symbol = Some (pos_symbol p),
                     error = Some (Retcode (res_retcode res))\<rparr>))
   \<and> (i < length tasks \<and> tasks ! i = Finished out \<longrightarrow>
        collect gw tasks [i] (C, Fl, v) =
          (if status out = ''closed'' then (C @ [ticket out], Fl, v) else (C, Fl @ [out], v)))"
  by (auto simp: close_ticket_def mt5_calls Let_def worker_send_def send_outcome_def
      failed_exception_def none_has_no_attribute_def split: option.splits)

theorem order_result_decides_outcome_witness:
  "fst (close_positions_batch_endpoint terminal_gateway (TicketList [103])
          (start two_buys_second_rejected)) =
     (BatchReport ''Batch close operation completed.'' []
        [\<lparr>fc_ticket = 103, fc_error = ''Market closed'',
          fc_result = Some (Some market_closed)\<rparr>], 200)
   \<and> fst (worker_send terminal_gateway (eurusd_buy 103 0)
            (all_order_request (eurusd_buy 103 0) ORDER_TYPE_SELL 1.1000)
            (start two_buys_second_rejected)) =
       \<lparr>status = ''failed'', ticket = 103, symbol = Some ''EURUSD'',
        error = Some (Retcode 10018)\<rparr>
   \<and> collect terminal_gateway
         [Finished \<lparr>status = ''closed'', ticket = 101, symbol = None, error = None\<rparr>] [0]
         ([], [], start two_buys) = ([101], [], start two_buys)"
  using order_result_decides_outcome [where gw = terminal_gateway and t = 103
      and w = "start two_buys_second_rejected" and p = "eurusd_buy 103 0" and ps = "[]"
      and ga = two_buys_second_rejected and q = eurusd_quote and gb = two_buys_second_rejected
      and result = "Some market_closed" and gc = two_buys_second_rejected
      and S = "[]" and F = "[]"
      and r = "all_order_request (eurusd_buy 103 0) ORDER_TYPE_SELL 1.1000"
      and v = "start two_buys_second_rejected" and g = two_buys_second_rejected
      and i = 0
      and tasks = "[Finished \<lparr>status = ''closed'', ticket = 101, symbol = None, error = None\<rparr>]"
      and out = "\<lparr>status = ''closed'', ticket = 101, symbol = None, error = None\<rparr>"
      and C = "[]" and Fl = "[]"]
  by (simp add: batch_defs close_all_defs mt5_calls terminal_defs mt5_constants two_buys_def
      two_buys_second_rejected_def market_closed_def)

section \<open>Tickets that are not open\<close>

text \<open>
  Claim C6. In \<^verbatim>\<open>close_positions_batch\<close>, when the lookup of a ticket comes
  back empty or as \<^verbatim>\<open>None\<close> at the moment the loop reaches it (the position
  never existed, or was closed before, possibly by an earlier ticket of the
  same request), this occurrence of the ticket adds exactly one entry, to
  \<^verbatim>\<open>failed_closes\<close>, with the error \<^verbatim>\<open>Position not found.\<close>; it adds nothing to
  \<^verbatim>\<open>successful_closes\<close>, whose entries all belong to the other tickets of the
  request. The tickets before and after it are processed as without it, each
  with its own entry, and the answer is 200.
\<close>

theorem missing_ticket_fails_alone:
  assumes before: "batch_loop gw xs ([], [], w) = (S1, F1, w1)"
    and lookup: "gw_positions_get gw (Some t) (gstate w1) = (r, g)"
    and missing: "r = None \<or> r = Some []"
    and after: "batch_loop gw ys ([], [], \<lparr>gstate = g, calls = calls w1 @ [PositionsGet (Some t)]\<rparr>) =
                  (S2, F2, w2)"
  shows "close_positions_batch_endpoint gw (TicketList (xs @ t # ys)) w =
           ((BatchReport ''Batch close operation completed.''
               (S1 @ S2)
               (F1 @ \<lparr>fc_ticket = t, fc_error = ''Position not found.'', fc_result = None\<rparr> # F2),
             200), w2)
         \<and> set (map sc_ticket (S1 @ S2)) \<subseteq> set xs \<union> set ys
         \<and> length S1 + length F1 = length xs
         \<and> length S2 + length F2 = length ys"
proof -
  let ?nf = "\<lparr>fc_ticket = t, fc_error = ''Position not found.'', fc_result = None\<rparr>"
  let ?w = "\<lparr>gstate = g, calls = calls w1 @ [PositionsGet (Some t)]\<rparr>"
  have one: "close_ticket gw t (S1, F1, w1) = (S1, F1 @ [?nf], ?w)"
    using lookup missing by (auto simp: close_ticket_def mt5_positions_get_def)
  have "batch_loop gw (xs @ t # ys) ([], [], w) = batch_loop gw ys (S1, F1 @ [?nf], ?w)"
    using before one by (simp add: batch_loop_append)
  also have "\<dots> = (S1 @ S2, (F1 @ [?nf]) @ F2, w2)"
    using after by (simp add: batch_loop_acc [of gw ys S1 "F1 @ [?nf]" ?w])
  finally have "batch_loop gw (xs @ t # ys) ([], [], w) = (S1 @ S2, F1 @ ?nf # F2, w2)"
    by simp
  then have response: "close_positions_batch_endpoint gw (TicketList (xs @ t # ys)) w =
      ((BatchReport ''Batch close operation completed.'' (S1 @ S2) (F1 @ ?nf # F2), 200), w2)"
    by (simp add: close_positions_batch_endpoint_def)
  have tickets: "set (map sc_ticket (S1 @ S2)) \<subseteq> set xs \<union> set ys"
    using batch_loop_tickets [OF before] batch_loop_tickets [OF after] by auto
  show ?thesis
    using response tickets batch_loop_count [OF before] batch_loop_count [OF after] by simp
qed

theorem missing_ticket_fails_alone_witness:
  "fst (close_positions_batch_endpoint terminal_gateway (TicketList [101, 101, 103])
          (start two_buys)) =
     (BatchReport ''Batch close operation completed.''
        [\<lparr>sc_ticket = 101,
          sc_result = \<lparr>res_retcode = TRADE_RETCODE_DONE, res_comment = ''Request executed'',
                        res_volume = 1, res_price = 1.1000\<rparr>\<rparr>,
         \<lparr>sc_ticket = 103,
          sc_result = \<lparr>res_retcode = TRADE_RETCODE_DONE, res_comment = ''Request executed'',
                        res_volume = 1, res_price = 1.1000\<rparr>\<rparr>]
        [\<lparr>fc_ticket = 101, fc_error = ''Position not found.'', fc_result = None\<rparr>],
      200)"
proof -
  let ?left = "two_buys\<lparr>term_positions := Some [eurusd_buy 103 0]\<rparr>"
  let ?ok = "\<lparr>res_retcode = TRADE_RETCODE_DONE, res_comment = ''Request executed'',
               res_volume = 1, res_price = 1.1000\<rparr>"
  let ?calls1 = "[PositionsGet (Some 101), SymbolInfoTick ''EURUSD'',
                  OrderSend (batch_close_request (eurusd_buy 101 0) ORDER_TYPE_SELL 1.1000)]"
  let ?w1 = "\<lparr>gstate = ?left, calls = ?calls1\<rparr>"
  let ?w2 = "\<lparr>gstate = two_buys\<lparr>term_positions := Some []\<rparr>,
              calls = ?calls1 @ [PositionsGet (Some 101), PositionsGet (Some 103),
                SymbolInfoTick ''EURUSD'',
                OrderSend (batch_close_request (eurusd_buy 103 0) ORDER_TYPE_SELL 1.1000)]\<rparr>"
  have before: "batch_loop terminal_gateway [101] ([], [], start two_buys) =
      ([\<lparr>sc_ticket = 101, sc_result = ?ok\<rparr>], [], ?w1)"
    by (simp add: batch_defs mt5_calls terminal_defs mt5_constants two_buys_def Let_def)
  have lookup: "gw_positions_get terminal_gateway (Some 101) (gstate ?w1) = (Some [], ?left)"
    by (simp add: terminal_defs two_buys_def)
  have after: "batch_loop terminal_gateway [103]
      ([], [], \<lparr>gstate = ?left, calls = calls ?w1 @ [PositionsGet (Some 101)]\<rparr>) =
      ([\<lparr>sc_ticket = 103, sc_result = ?ok\<rparr>], [], ?w2)"
    by (simp add: batch_defs mt5_calls terminal_defs mt5_constants two_buys_def Let_def)
  from missing_ticket_fails_alone [OF before lookup _ after] show ?thesis by simp
qed

section \<open>The position list cannot be fetched\<close>

text \<open>
  Claim C7. When \<^verbatim>\<open>positions_get()\<close> returns \<^verbatim>\<open>None\<close> at the start of
  \<^verbatim>\<open>close_all_positions\<close>, the endpoint answers 500 with one error message, and
  the only calls it makes are the connection, the failed fetch, the shutdown
  and the error lookup: no quote is fetched and no order is sent.
\<close>

theorem positions_fetch_failure_aborts:
  assumes "gw_initialize gw (gstate w) = (True, g1)"
    and "gw_positions_get gw None g1 = (None, g2)"
  shows "close_all_positions_endpoint gw magic sched order w =
           ((ErrorBody (''positions_get failed: '' @ gw_last_error gw (gw_shutdown gw g2)), 500),
            \<lparr>gstate = gw_shutdown gw g2,
             calls = calls w @ [Initialize, PositionsGet None, Shutdown, LastError]\<rparr>)
         \<and> filter is_close_call
               (calls (snd (close_all_positions_endpoint gw magic sched order w))) =
             filter is_close_call (calls w)"
  using assms by (simp add: close_all_positions_endpoint_def mt5_calls)

theorem positions_fetch_failure_aborts_witness:
  "close_all_positions_endpoint terminal_gateway None [0] [0]
     (start \<lparr>term_positions = None, term_quotes = [(''EURUSD'', eurusd_quote)],
             term_replies = []\<rparr>) =
   ((ErrorBody ''positions_get failed: (-10004, 'No IPC connection')'', 500),
    \<lparr>gstate = \<lparr>term_positions = None, term_quotes = [(''EURUSD'', eurusd_quote)],
                term_replies = []\<rparr>,
     calls = [Initialize, PositionsGet None, Shutdown, LastError]\<rparr>)"
  using positions_fetch_failure_aborts [of terminal_gateway
      "start \<lparr>term_positions = None, term_quotes = [(''EURUSD'', eurusd_quote)],
              term_replies = []\<rparr>"
      "\<lparr>term_positions = None, term_quotes = [(''EURUSD'', eurusd_quote)], term_replies = []\<rparr>"
      "\<lparr>term_positions = None, term_quotes = [(''EURUSD'', eurusd_quote)], term_replies = []\<rparr>"
      None "[0]" "[0]"]
  by (simp add: terminal_gateway_def start_def)

section \<open>Side and price of the closing order\<close>

text \<open>
  Claim C8. In \<^verbatim>\<open>close_positions_batch\<close>, a ticket whose lookup gives the
  position \<open>p\<close> and whose quote is \<open>q\<close> makes exactly three calls: the lookup,
  the quote fetch, and one order for the ticket, symbol and volume of \<open>p\<close>; the
  order is a sell at the bid of \<open>q\<close> when \<open>p\<close> is a buy, and a buy at the ask
  of \<open>q\<close> when \<open>p\<close> is a sell. The worker of \<^verbatim>\<open>close_all_positions\<close> builds
  its order in the same way from the quote it fetched, and that order is the
  one it sends, also when other workers run in between. In the scenario of
  the claim, the request for tickets 101, 102, 103 closes 101 and 103 with
  sells at 1.1000 and reports 102 with \<^verbatim>\<open>Position not found.\<close>
\<close>

theorem closing_order_opposes_position:
  "(gw_positions_get gw (Some t) (gstate w) = (Some (p # ps), ga) \<and>
    gw_symbol_info_tick gw (pos_symbol p) ga = (Some q, gb) \<longrightarrow>
      (\<exists>r. calls (snd (snd (close_ticket gw t (S, F, w)))) =
             calls w @ [PositionsGet (Some t), SymbolInfoTick (pos_symbol p), OrderSend r] \<and>
           req_position r = pos_ticket p \<and> req_symbol r = pos_symbol p \<and>
           req_volume r = pos_volume p \<and>
           (pos_type p = POSITION_TYPE_BUY \<longrightarrow>
              req_type r = ORDER_TYPE_SELL \<and> req_price r = bid q) \<and>
           (pos_type p = POSITION_TYPE_SELL \<longrightarrow>
              req_type r = ORDER_TYPE_BUY \<and> req_price r = ask q)))
   \<and> (gw_symbol_info_tick gw (pos_symbol p) (gstate v) = (Some q, g) \<longrightarrow>
      (\<exists>r. fst (worker_step gw (Submitted p) v) = AwaitingSend p r \<and>
           calls (snd (worker_step gw (AwaitingSend p r) v')) = calls v' @ [OrderSend r] \<and>
           calls (snd (close_position gw p v)) =
             calls v @ [SymbolInfoTick (pos_symbol p), OrderSend r] \<and>
           req_position r = pos_ticket p \<and> req_symbol r = pos_symbol p \<and>
           req_volume r = pos_volume p \<and>
           (pos_type p = POSITION_TYPE_BUY \<longrightarrow>
              req_type r = ORDER_TYPE_SELL \<and> req_price r = bid q) \<and>
           (pos_type p = POSITION_TYPE_SELL \<longrightarrow>
              req_type r = ORDER_TYPE_BUY \<and> req_price r = ask q)))
   \<and> fst (close_positions_batch_endpoint terminal_gateway (TicketList [101, 102, 103])
            (start two_buys)) =
       (BatchReport ''Batch close operation completed.''
          [\<lparr>sc_ticket = 101,
            sc_result = \<lparr>res_retcode = TRADE_RETCODE_DONE, res_comment = ''Request executed'',
                          res_volume = 1, res_price = 1.1000\<rparr>\<rparr>,
           \<lparr>sc_ticket = 103,
            sc_result = \<lparr>res_retcode = TRADE_RETCODE_DONE, res_comment = ''Request executed'',
                          res_volume = 1, res_price = 1.1000\<rparr>\<rparr>]
          [\<lparr>fc_ticket = 102, fc_error = ''Position not found.'', fc_result = None\<rparr>],
        200)
   \<and> filter is_close_call
        (calls (snd (close_positions_batch_endpoint terminal_gateway (TicketList [101, 102, 103])
                       (start two_buys)))) =
       [SymbolInfoTick ''EURUSD'',
        OrderSend (batch_close_request (eurusd_buy 101 0) ORDER_TYPE_SELL 1.1000),
        SymbolInfoTick ''EURUSD'',
        OrderSend (batch_close_request (eurusd_buy 103 0) ORDER_TYPE_SELL 1.1000)]"
proof (intro conjI impI)
  assume "gw_positions_get gw (Some t) (gstate w) = (Some (p # ps), ga) \<and>
    gw_symbol_info_tick gw (pos_symbol p) ga = (Some q, gb)"
  then show "\<exists>r. calls (snd (snd (close_ticket gw t (S, F, w)))) =
             calls w @ [PositionsGet (Some t), SymbolInfoTick (pos_symbol p), OrderSend r] \<and>
           req_position r = pos_ticket p \<and> req_symbol r = pos_symbol p \<and>
           req_volume r = pos_volume p \<and>
           (pos_type p = POSITION_TYPE_BUY \<longrightarrow>
              req_type r = ORDER_TYPE_SELL \<and> req_price r = bid q) \<and>
           (pos_type p = POSITION_TYPE_SELL \<longrightarrow>
              req_type r = ORDER_TYPE_BUY \<and> req_price r = ask q)"
    by (intro exI [of _ "batch_close_request p (batch_order_type p)
                           (batch_price (batch_order_type p) q)"])
       (auto simp: batch_defs mt5_calls mt5_constants Let_def split: option.splits prod.splits)
next
  assume quote: "gw_symbol_info_tick gw (pos_symbol p) (gstate v) = (Some q, g)"
  let ?r = "all_order_request p (all_order_type p)
              (if all_order_type p = ORDER_TYPE_SELL then bid q else ask q)"
  have tick: "worker_tick gw p v =
      (Inr ?r, \<lparr>gstate = g, calls = calls v @ [SymbolInfoTick (pos_symbol p)]\<rparr>)"
    using quote by (simp add: worker_tick_def mt5_symbol_info_tick_def Let_def)
  have send: "calls (snd (worker_send gw p ?r u)) = calls u @ [OrderSend ?r]" for u
    by (simp add: worker_send_def mt5_order_send_def split: prod.splits)
  have "fst (worker_step gw (Submitted p) v) = AwaitingSend p ?r"
    using tick by simp
  moreover have "calls (snd (worker_step gw (AwaitingSend p ?r) v')) = calls v' @ [OrderSend ?r]"
    using send [of v'] by (simp add: case_prod_unfold)
  moreover have "calls (snd (close_position gw p v)) =
             calls v @ [SymbolInfoTick (pos_symbol p), OrderSend ?r]"
    using tick send [of "\<lparr>gstate = g, calls = calls v @ [SymbolInfoTick (pos_symbol p)]\<rparr>"]
    by (simp add: close_position_def)
  moreover have "req_position ?r = pos_ticket p \<and> req_symbol ?r = pos_symbol p \<and>
           req_volume ?r = pos_volume p \<and>
           (pos_type p = POSITION_TYPE_BUY \<longrightarrow>
              req_type ?r = ORDER_TYPE_SELL \<and> req_price ?r = bid q) \<and>
           (pos_type p = POSITION_TYPE_SELL \<longrightarrow>
              req_type ?r = ORDER_TYPE_BUY \<and> req_price ?r = ask q)"
    by (simp add: all_order_request_def all_order_type_def mt5_constants)
  ultimately show "\<exists>r. fst (worker_step gw (Submitted p) v) = AwaitingSend p r \<and>
           calls (snd (worker_step gw (AwaitingSend p r) v')) = calls v' @ [OrderSend r] \<and>
           calls (snd (close_position gw p v)) =
             calls v @ [SymbolInfoTick (pos_symbol p), OrderSend r] \<and>
           req_position r = pos_ticket p \<and> req_symbol r = pos_symbol p \<and>
           req_volume r = pos_volume p \<and>
           (pos_type p = POSITION_TYPE_BUY \<longrightarrow>
              req_type r = ORDER_TYPE_SELL \<and> req_price r = bid q) \<and>
           (pos_type p = POSITION_TYPE_SELL \<longrightarrow>
              req_type r = ORDER_TYPE_BUY \<and> req_price r = ask q)"
    by blast
next
  show "fst (close_positions_batch_endpoint terminal_gateway (TicketList [101, 102, 103])
            (start two_buys)) =
       (BatchReport ''Batch close operation completed.''
          [\<lparr>sc_ticket = 101,
            sc_result = \<lparr>res_retcode = TRADE_RETCODE_DONE, res_comment = ''Request executed'',
                          res_volume = 1, res_price = 1.1000\<rparr>\<rparr>,
           \<lparr>sc_ticket = 103,
            sc_result = \<lparr>res_retcode = TRADE_RETCODE_DONE, res_comment = ''Request executed'',
                          res_volume = 1, res_price = 1.1000\<rparr>\<rparr>]
          [\<lparr>fc_ticket = 102, fc_error = ''Position not found.'', fc_result = None\<rparr>],
        200)"
    by (simp add: batch_defs mt5_calls terminal_defs mt5_constants two_buys_def Let_def)
next
  show "filter is_close_call
        (calls (snd (close_positions_batch_endpoint terminal_gateway (TicketList [101, 102, 103])
                       (start two_buys)))) =
       [SymbolInfoTick ''EURUSD'',
        OrderSend (batch_close_request (eurusd_buy 101 0) ORDER_TYPE_SELL 1.1000),
        SymbolInfoTick ''EURUSD'',
        OrderSend (batch_close_request (eurusd_buy 103 0) ORDER_TYPE_SELL 1.1000)]"
    by (simp add: batch_defs mt5_calls terminal_defs mt5_constants two_buys_def Let_def)
qed

theorem closing_order_opposes_position_witness:
  "calls (snd (snd (close_ticket terminal_gateway 7 ([], [], start one_sell)))) =
     [PositionsGet (Some 7), SymbolInfoTick ''EURUSD'',
      OrderSend (batch_close_request (eurusd_sell 7 0) ORDER_TYPE_BUY 1.1002)]
   \<and> calls (snd (close_position terminal_gateway (eurusd_sell 7 0) (start one_sell))) =
     [SymbolInfoTick ''EURUSD'',
      OrderSend (all_order_request (eurusd_sell 7 0) ORDER_TYPE_BUY 1.1002)]"
  using closing_order_opposes_position [where gw = terminal_gateway and t = 7
      and w = "start one_sell" and p = "eurusd_sell 7 0" and ps = "[]" and ga = one_sell
      and q = eurusd_quote and gb = one_sell and S = "[]" and F = "[]"
      and v = "start one_sell" and g = one_sell and v' = "start one_sell"]
  by (simp add: batch_defs close_all_defs close_position_def mt5_calls terminal_defs
      mt5_constants two_buys_def one_sell_def eurusd_sell_def Let_def)

section \<open>The order of the tickets\<close>


end
